theory Spec2Isabelle
  imports Main
begin

section \<open>Python values\<close>

text \<open>
  The program moves JSON payloads around: the match provider's responses, the parsed
  reply of the structured intent call, and the dictionaries it builds itself. A payload
  is a value of \<open>json\<close>; a Python \<open>dict\<close> is an association list in insertion
  order with distinct keys, \<open>None\<close> is \<open>JNull\<close>. Python strings are modelled as
  \<open>string\<close> and the text functions below are those of ASCII text (\<open>lower\<close> maps
  \<open>A\<close>..\<open>Z\<close>, a digit is \<open>0\<close>..\<open>9\<close>). JSON numbers with a fraction or an
  exponent (Python floats) are not part of the model.
\<close>

datatype json =
    JNull
  | JBool bool
  | JInt int
  | JStr string
  | JArr "json list"
  | JObj "(string \<times> json) list"

type_synonym dict = "(string \<times> json) list"

text \<open>Truth value testing (\<open>if x:\<close>).\<close>

fun truthy :: "json \<Rightarrow> bool" where
  "truthy JNull = False"
| "truthy (JBool b) = b"
| "truthy (JInt i) = (i \<noteq> 0)"
| "truthy (JStr s) = (s \<noteq> [])"
| "truthy (JArr xs) = (xs \<noteq> [])"
| "truthy (JObj kvs) = (kvs \<noteq> [])"

text \<open>\<open>type(x).__name__\<close>, as the interpreter prints it in its error messages.\<close>

fun type_name :: "json \<Rightarrow> string" where
  "type_name JNull = ''NoneType''"
| "type_name (JBool b) = ''bool''"
| "type_name (JInt i) = ''int''"
| "type_name (JStr s) = ''str''"
| "type_name (JArr xs) = ''list''"
| "type_name (JObj kvs) = ''dict''"

definition nl :: string where
  "nl = [CHR 0x0A]"

definition apos :: string where
  "apos = [CHR 0x27]"

text \<open>\<open>sep.join(xs)\<close> on a list of strings.\<close>

fun join :: "string \<Rightarrow> string list \<Rightarrow> string" where
  "join sep [] = []"
| "join sep [x] = x"
| "join sep (x # y # ys) = x @ sep @ join sep (y # ys)"

definition lower_char :: "char \<Rightarrow> char" where
  "lower_char c =
     (case map_of (zip ''ABCDEFGHIJKLMNOPQRSTUVWXYZ'' ''abcdefghijklmnopqrstuvwxyz'') c of
        Some d \<Rightarrow> d
      | None \<Rightarrow> c)"

definition lower :: "string \<Rightarrow> string" where
  "lower s = map lower_char s"

definition is_digit :: "char \<Rightarrow> bool" where
  "is_digit c = (c \<in> set ''0123456789'')"

definition digit_val :: "char \<Rightarrow> nat" where
  "digit_val c =
     (case map_of (zip ''0123456789'' [0, 1, 2, 3, 4, 5, 6, 7, 8, 9]) c of
        Some d \<Rightarrow> d
      | None \<Rightarrow> 0)"

text \<open>Decimal rendering of a number, as \<open>str\<close> does for an \<open>int\<close>.\<close>

function string_of_nat :: "nat \<Rightarrow> string" where
  "string_of_nat n =
     (if n < 10 then [''0123456789'' ! n]
      else string_of_nat (n div 10) @ [''0123456789'' ! (n mod 10)])"
  by pat_completeness auto
termination
  by (relation "measure id") auto

declare string_of_nat.simps [simp del]

definition string_of_int :: "int \<Rightarrow> string" where
  "string_of_int i = (if i < 0 then CHR ''-'' # string_of_nat (nat (- i)) else string_of_nat (nat i))"

text \<open>
  \<open>repr\<close> of a string: double quotes when the text holds a single quote and no double
  quote, single quotes otherwise; the delimiter and the backslash are escaped, control
  characters are written \<open>\t\<close>, \<open>\n\<close>, \<open>\r\<close> or \<open>\xhh\<close>.
\<close>

definition repr_char :: "char \<Rightarrow> char \<Rightarrow> string" where
  "repr_char q c =
     (if c = q \<or> c = CHR 0x5C then [CHR 0x5C, c]
      else if c = CHR 0x09 then [CHR 0x5C, CHR ''t'']
      else if c = CHR 0x0A then [CHR 0x5C, CHR ''n'']
      else if c = CHR 0x0D then [CHR 0x5C, CHR ''r'']
      else if (of_char c :: nat) < 32 \<or> (of_char c :: nat) = 127
        then [CHR 0x5C, CHR ''x'', ''0123456789abcdef'' ! (of_char c div 16),
              ''0123456789abcdef'' ! (of_char c mod 16)]
      else [c])"

definition repr_str :: "string \<Rightarrow> string" where
  "repr_str s =
     (let q = (if CHR 0x27 \<in> set s \<and> CHR 0x22 \<notin> set s then CHR 0x22 else CHR 0x27)
      in q # concat (map (repr_char q) s) @ [q])"

fun py_repr :: "json \<Rightarrow> string"
  and py_repr_list :: "json list \<Rightarrow> string list"
  and py_repr_items :: "(string \<times> json) list \<Rightarrow> string list" where
  "py_repr JNull = ''None''"
| "py_repr (JBool b) = (if b then ''True'' else ''False'')"
| "py_repr (JInt i) = string_of_int i"
| "py_repr (JStr s) = repr_str s"
| "py_repr (JArr xs) = ''['' @ join '', '' (py_repr_list xs) @ '']''"
| "py_repr (JObj kvs) = ''{'' @ join '', '' (py_repr_items kvs) @ ''}''"
| "py_repr_list [] = []"
| "py_repr_list (x # xs) = py_repr x # py_repr_list xs"
| "py_repr_items [] = []"
| "py_repr_items ((k, v) # kvs) = (repr_str k @ '': '' @ py_repr v) # py_repr_items kvs"

text \<open>\<open>str(x)\<close>, which is what an f-string field \<open>{x}\<close> renders.\<close>

definition py_str :: "json \<Rightarrow> string" where
  "py_str v = (case v of JStr s \<Rightarrow> s | _ \<Rightarrow> py_repr v)"

text \<open>\<open>d.get(k, default)\<close> on a dictionary; \<open>d.get(k)\<close> is \<open>dict_get d k JNull\<close>.\<close>

definition dict_get :: "dict \<Rightarrow> string \<Rightarrow> json \<Rightarrow> json" where
  "dict_get d k dflt = (case map_of d k of Some v \<Rightarrow> v | None \<Rightarrow> dflt)"

subsection \<open>Exceptions\<close>

text \<open>
  An exception is its class and the text \<open>str(e)\<close>. The texts of the interpreter's own
  errors follow CPython 3.12; those of the outside services are inputs.
\<close>

datatype exn_kind = AttributeError | TypeError | KeyError | NameError | ServiceError

datatype py_exn = PyExn exn_kind string

fun exn_str :: "py_exn \<Rightarrow> string" where
  "exn_str (PyExn k msg) = msg"

definition no_attribute :: "json \<Rightarrow> string \<Rightarrow> py_exn" where
  "no_attribute v attr =
     PyExn AttributeError (apos @ type_name v @ apos @ '' object has no attribute '' @ apos @ attr @ apos)"

text \<open>\<open>v.get(k, default)\<close> on any value: only a dictionary has the method.\<close>

definition py_get :: "json \<Rightarrow> string \<Rightarrow> json \<Rightarrow> py_exn + json" where
  "py_get v k dflt = (case v of JObj d \<Rightarrow> Inr (dict_get d k dflt) | _ \<Rightarrow> Inl (no_attribute v ''get''))"

definition py_lower :: "json \<Rightarrow> py_exn + string" where
  "py_lower v = (case v of JStr s \<Rightarrow> Inr (lower s) | _ \<Rightarrow> Inl (no_attribute v ''lower''))"

definition py_items :: "json \<Rightarrow> py_exn + (string \<times> json) list" where
  "py_items v = (case v of JObj d \<Rightarrow> Inr d | _ \<Rightarrow> Inl (no_attribute v ''items''))"

text \<open>Iteration (\<open>for x in v\<close>): a list gives its items, a dictionary its keys, a string its
  characters; nothing else is iterable.\<close>

definition py_iter :: "json \<Rightarrow> py_exn + json list" where
  "py_iter v =
     (case v of
        JArr xs \<Rightarrow> Inr xs
      | JObj d \<Rightarrow> Inr (map (\<lambda>kv. JStr (fst kv)) d)
      | JStr s \<Rightarrow> Inr (map (\<lambda>c. JStr [c]) s)
      | _ \<Rightarrow> Inl (PyExn TypeError (apos @ type_name v @ apos @ '' object is not iterable'')))"

fun contains_text :: "string \<Rightarrow> string \<Rightarrow> bool" where
  "contains_text pat [] = (pat = [])"
| "contains_text pat (c # cs) = (take (length pat) (c # cs) = pat \<or> contains_text pat cs)"

text \<open>\<open>k in v\<close> for a string \<open>k\<close>: a key of a dictionary, an item of a list, a piece of a
  string.\<close>

definition py_contains :: "string \<Rightarrow> json \<Rightarrow> py_exn + bool" where
  "py_contains k v =
     (case v of
        JObj d \<Rightarrow> Inr (k \<in> set (map fst d))
      | JArr xs \<Rightarrow> Inr (JStr k \<in> set xs)
      | JStr s \<Rightarrow> Inr (contains_text k s)
      | _ \<Rightarrow> Inl (PyExn TypeError (''argument of type '' @ apos @ type_name v @ apos @ '' is not iterable'')))"

text \<open>\<open>v[k]\<close> for a string \<open>k\<close>.\<close>

definition py_subscript :: "json \<Rightarrow> string \<Rightarrow> py_exn + json" where
  "py_subscript v k =
     (case v of
        JObj d \<Rightarrow> (case map_of d k of Some x \<Rightarrow> Inr x | None \<Rightarrow> Inl (PyExn KeyError (repr_str k)))
      | JArr xs \<Rightarrow> Inl (PyExn TypeError ''list indices must be integers or slices, not str'')
      | JStr s \<Rightarrow> Inl (PyExn TypeError (''string indices must be integers, not '' @ apos @ ''str'' @ apos))
      | _ \<Rightarrow> Inl (PyExn TypeError (apos @ type_name v @ apos @ '' object is not subscriptable'')))"

text \<open>\<open>v - 1\<close>: defined on integers, and on booleans, which are integers in Python.\<close>

definition py_minus_one :: "json \<Rightarrow> py_exn + int" where
  "py_minus_one v =
     (case v of
        JInt i \<Rightarrow> Inr (i - 1)
      | JBool b \<Rightarrow> Inr ((if b then 1 else 0) - 1)
      | _ \<Rightarrow> Inl (PyExn TypeError (''unsupported operand type(s) for -: '' @ apos @ type_name v @ apos
                 @ '' and '' @ apos @ ''int'' @ apos)))"

text \<open>\<open>sep.join(items)\<close> on arbitrary items: the first item that is not a string raises.\<close>

fun join_items :: "nat \<Rightarrow> json list \<Rightarrow> py_exn + string list" where
  "join_items i [] = Inr []"
| "join_items i (x # xs) =
     (case x of
        JStr s \<Rightarrow> (case join_items (Suc i) xs of Inl e \<Rightarrow> Inl e | Inr ss \<Rightarrow> Inr (s # ss))
      | _ \<Rightarrow> Inl (PyExn TypeError (''sequence item '' @ string_of_nat i @ '': expected str instance, ''
                 @ type_name x @ '' found'')))"

definition py_join :: "string \<Rightarrow> json list \<Rightarrow> py_exn + string" where
  "py_join sep xs = (case join_items 0 xs of Inl e \<Rightarrow> Inl e | Inr ss \<Rightarrow> Inr (join sep ss))"

section \<open>Effects\<close>

text \<open>
  What a handler does besides computing is recorded as a list of events in the order in
  which they happen: the calls of the user interface (\<open>st.write\<close>, \<open>st.warning\<close>,
  \<open>st.error\<close>, \<open>st.spinner\<close>, the user's chat bubble, the assistant's response area) and
  the requests sent to the outside services. A computation that may raise returns its
  events together with either the exception or its result.
\<close>

datatype event =
    UserBubble string
  | ResponseArea string
  | StWrite string
  | StWarning string
  | StError string
  | StSpinner string
  | HttpGet string dict
  | IntentCall string string
  | SendMessage string

type_synonym 'a run = "event list \<times> (py_exn + 'a)"

definition ret :: "'a \<Rightarrow> 'a run" where
  "ret x = ([], Inr x)"

definition emit :: "event \<Rightarrow> unit run" where
  "emit e = ([e], Inr ())"

definition lift :: "py_exn + 'a \<Rightarrow> 'a run" where
  "lift r = ([], r)"

definition and_then :: "'a run \<Rightarrow> ('a \<Rightarrow> 'b run) \<Rightarrow> 'b run" where
  "and_then m f =
     (case m of
        (ev, Inl e) \<Rightarrow> (ev, Inl e)
      | (ev, Inr x) \<Rightarrow> (case f x of (ev', r) \<Rightarrow> (ev @ ev', r)))"

section \<open>The outside services\<close>

text \<open>
  The match provider, the language model and the interpreter's environment are inputs.
  \<open>requests_get\<close> is \<open>requests.get(url, params=params)\<close>: it raises a
  \<open>RequestException\<close> or returns a response, whose \<open>json()\<close> is the decoded body or
  raises (a \<open>RequestException\<close> as well). \<open>generate_content\<close> stands for the structured
  intent call followed by \<open>json.loads(response.text)\<close>, as a function of the user query
  and the match summary the prompt is built from: either some step raised, or the text
  was parsed. \<open>send_message\<close> is the chat session's streamed reply to a prompt: the call
  raises, or the stream delivers the texts of its chunks and then ends or raises.
\<close>

record http_response =
  status_code :: int
  reason :: string
  response_url :: string
  response_json :: "string + json"

datatype http_result = RequestRaised string | Responded http_response

datatype intent_reply = IntentRaised string | IntentParsed json

datatype stream_end = StreamDone | StreamRaised string

datatype chat_reply = SendRaised string | Streamed "string list" stream_end

record env =
  CRICKET_API_KEY :: json
  requests_get :: "string \<Rightarrow> dict \<Rightarrow> http_result"
  generate_content :: "string \<Rightarrow> string \<Rightarrow> intent_reply"
  send_message :: "string \<Rightarrow> chat_reply"

section \<open>CricketData\<close>

definition get_url :: "json \<Rightarrow> string \<Rightarrow> json \<Rightarrow> string" where
  "get_url API_KEY url_type ident =
     (let base_url = ''https://api.cricapi.com/v1/'' in
      if url_type = ''currentMatches''
      then base_url @ url_type @ ''?apikey='' @ py_str API_KEY @ ''&offset=0''
      else base_url @ url_type @ ''?apikey='' @ py_str API_KEY @ ''&offset=0&id='' @ py_str ident)"

definition get_params :: "json \<Rightarrow> json \<Rightarrow> dict" where
  "get_params API_KEY ident =
     [(''apikey'', API_KEY), (''offset'', JInt 0)] @ (if truthy ident then [(''id'', ident)] else [])"

text \<open>\<open>response.raise_for_status()\<close>: the text of the \<open>HTTPError\<close> it raises for a 4xx or
  5xx status, \<open>None\<close> when it returns.\<close>

definition raise_for_status :: "http_response \<Rightarrow> string option" where
  "raise_for_status r =
     (if 400 \<le> status_code r \<and> status_code r < 500
      then Some (string_of_int (status_code r) @ '' Client Error: '' @ reason r @ '' for url: '' @ response_url r)
      else if 500 \<le> status_code r \<and> status_code r < 600
      then Some (string_of_int (status_code r) @ '' Server Error: '' @ reason r @ '' for url: '' @ response_url r)
      else None)"

text \<open>The \<open>except requests.exceptions.RequestException\<close> branch.\<close>

definition network_error :: "string \<Rightarrow> string \<Rightarrow> json run" where
  "network_error url_type e =
     and_then (emit (StError (''Network or API error for '' @ url_type @ '': '' @ e))) (\<lambda>_. ret JNull)"

definition make_api_request :: "env \<Rightarrow> string \<Rightarrow> json \<Rightarrow> json run" where
  "make_api_request env url_type ident =
     (let url = get_url (CRICKET_API_KEY env) url_type ident;
          params = get_params (CRICKET_API_KEY env) ident
      in and_then (emit (HttpGet url params)) (\<lambda>_.
         case requests_get env url params of
           RequestRaised e \<Rightarrow> network_error url_type e
         | Responded response \<Rightarrow>
             (case raise_for_status response of
                Some e \<Rightarrow> network_error url_type e
              | None \<Rightarrow>
                  (case response_json response of
                     Inl e \<Rightarrow> network_error url_type e
                   | Inr data \<Rightarrow>
                       and_then (lift (py_get data ''status'' JNull)) (\<lambda>status.
                       if status \<noteq> JStr ''success''
                       then and_then (lift (py_get data ''reason'' (JStr ''Unknown error''))) (\<lambda>why.
                            and_then (emit (StError (''Cricket API call for '' @ url_type @ '' failed: '' @ py_str why))) (\<lambda>_.
                            ret JNull))
                       else lift (py_get data ''data'' (JObj [])))))))"

definition get_match_info :: "env \<Rightarrow> json \<Rightarrow> json run" where
  "get_match_info env match_id = make_api_request env ''match_info'' match_id"

definition get_match_squad :: "env \<Rightarrow> json \<Rightarrow> json run" where
  "get_match_squad env match_id = make_api_request env ''match_squad'' match_id"

definition get_current_matches :: "env \<Rightarrow> json run" where
  "get_current_matches env = make_api_request env ''currentMatches'' JNull"

section \<open>The intent of a user query\<close>

text \<open>
  \<open>re.search(r'match (\d+)', s)\<close>: the leftmost place where \<open>match\<close>, one space and a
  digit stand; the group is the longest run of digits from there.
\<close>

definition match_here :: "string \<Rightarrow> string option" where
  "match_here s =
     (if take 6 s = ''match ''
      then (let ds = takeWhile is_digit (drop 6 s) in if ds = [] then None else Some ds)
      else None)"

fun re_search :: "string \<Rightarrow> string option" where
  "re_search [] = None"
| "re_search (c # cs) = (case match_here (c # cs) of Some ds \<Rightarrow> Some ds | None \<Rightarrow> re_search cs)"

text \<open>
  \<open>int(digits)\<close>. CPython refuses to convert a decimal string of more than
  \<open>sys.get_int_max_str_digits()\<close> digits (4300 unless configured otherwise) and raises
  \<open>ValueError\<close>, here \<open>None\<close>: the branch \<open>except ValueError: pass\<close> of the source.
\<close>

definition int_max_str_digits :: nat where
  "int_max_str_digits = 4300"

definition digits_value :: "string \<Rightarrow> nat" where
  "digits_value ds = foldl (\<lambda>a c. 10 * a + digit_val c) 0 ds"

definition py_int :: "string \<Rightarrow> int option" where
  "py_int ds =
     (if ds = [] \<or> \<not> list_all is_digit ds \<or> int_max_str_digits < length ds then None
      else Some (int (digits_value ds)))"

text \<open>The \<open>except Exception\<close> branch: the fallback on the user query.\<close>

definition regex_fallback :: "string \<Rightarrow> json" where
  "regex_fallback user_query =
     (case re_search (lower user_query) of
        Some ds \<Rightarrow> (case py_int ds of Some n \<Rightarrow> JObj [(''match_number'', JInt n)] | None \<Rightarrow> JObj [])
      | None \<Rightarrow> JObj [])"

definition get_match_intent :: "env \<Rightarrow> string \<Rightarrow> string \<Rightarrow> json run" where
  "get_match_intent env user_query current_matches_summary =
     and_then (emit (IntentCall user_query current_matches_summary)) (\<lambda>_.
     case generate_content env user_query current_matches_summary of
       IntentParsed parsed_json \<Rightarrow> ret parsed_json
     | IntentRaised e \<Rightarrow>
         and_then (emit (StWarning (''Could not parse match intent from LLM: '' @ e @ ''. Falling back to regex.''))) (\<lambda>_.
         ret (regex_fallback user_query)))"

section \<open>The session\<close>

text \<open>
  \<open>st.session_state\<close>: the transcript, the cached match data (\<open>None\<close> until a refresh
  stores a list of match dictionaries) and the reduced list used for intent matching.
\<close>

datatype role = RoleUser | RoleAssistant

record message =
  msg_role :: role
  msg_text :: string

record match_list_entry =
  entry_index :: int
  entry_name :: json
  entry_id :: json

record session =
  messages :: "message list"
  current_match_data :: "dict list option"
  match_list_for_llm :: "match_list_entry list"

definition assistant_says :: "string \<Rightarrow> message" where
  "assistant_says t = \<lparr>msg_role = RoleAssistant, msg_text = t\<rparr>"

definition user_says :: "string \<Rightarrow> message" where
  "user_says t = \<lparr>msg_role = RoleUser, msg_text = t\<rparr>"

text \<open>\<open>if st.session_state.current_match_data:\<close> and the list it then holds.\<close>

definition has_match_data :: "session \<Rightarrow> bool" where
  "has_match_data s = (case current_match_data s of None \<Rightarrow> False | Some ms \<Rightarrow> ms \<noteq> [])"

definition match_data :: "session \<Rightarrow> dict list" where
  "match_data s = (case current_match_data s of None \<Rightarrow> [] | Some ms \<Rightarrow> ms)"

section \<open>The button "Fetch Latest Matches"\<close>

text \<open>
  The handler of the button. Its loop reads every fetched item with \<open>m.get\<close>, so every
  item must be a dictionary; a payload of another shape ends the run of the script with
  the exception. A refresh that completes thus caches a non-empty list of dictionaries,
  which is the type of the cache in \<open>session\<close>. The closing \<open>st.rerun()\<close> of the
  handlers only redraws the page and is left out.
\<close>

fun dicts_of :: "json list \<Rightarrow> py_exn + dict list" where
  "dicts_of [] = Inr []"
| "dicts_of (x # xs) =
     (case x of
        JObj d \<Rightarrow> (case dicts_of xs of Inl e \<Rightarrow> Inl e | Inr ds \<Rightarrow> Inr (d # ds))
      | _ \<Rightarrow> Inl (no_attribute x ''get''))"

definition as_dicts :: "json \<Rightarrow> py_exn + dict list" where
  "as_dicts matches = (case py_iter matches of Inl e \<Rightarrow> Inl e | Inr xs \<Rightarrow> dicts_of xs)"

definition summary_line :: "nat \<Rightarrow> dict \<Rightarrow> string" where
  "summary_line i m =
     string_of_nat (i + 1) @ ''. **'' @ py_str (dict_get m ''name'' (JStr ''N/A'')) @ ''** - ''
       @ py_str (dict_get m ''status'' (JStr ''N/A''))"

definition match_summary :: "dict list \<Rightarrow> string list" where
  "match_summary ms = map (\<lambda>(i, m). summary_line i m) (filter (\<lambda>(i, m). i < 5) (enumerate 0 ms))"

definition lookup_entry :: "nat \<Rightarrow> dict \<Rightarrow> match_list_entry" where
  "lookup_entry i m =
     \<lparr>entry_index = int i + 1,
      entry_name = dict_get m ''name'' (JStr ''N/A''),
      entry_id = dict_get m ''id'' (JStr ''N/A'')\<rparr>"

definition lookup_list :: "dict list \<Rightarrow> match_list_entry list" where
  "lookup_list ms = map (\<lambda>(i, m). lookup_entry i m) (enumerate 0 ms)"

definition fetched_text :: "string \<Rightarrow> string" where
  "fetched_text formatted_matches =
     ''Here are some of the current matches:'' @ nl @ formatted_matches @ nl @ nl
     @ ''I'' @ apos @ ''ve stored this information. Now you can ask me for fantasy recommendations based on these matches, or ask about a specific match by its number (e.g., ''
     @ apos @ ''tell me about match 1'' @ apos @ '') or by its name.''"

definition fetch_latest_matches :: "env \<Rightarrow> session \<Rightarrow> session run" where
  "fetch_latest_matches env s =
     and_then (emit (StSpinner ''Fetching current matches...'')) (\<lambda>_.
     and_then (get_current_matches env) (\<lambda>matches.
     if truthy matches
     then and_then (lift (as_dicts matches)) (\<lambda>ms.
          ret (s\<lparr>current_match_data := Some ms,
                 match_list_for_llm := lookup_list ms,
                 messages := messages s @ [assistant_says (fetched_text (join nl (match_summary ms)))]\<rparr>))
     else ret (s\<lparr>messages := messages s
                 @ [assistant_says ''Could not fetch current matches. Please try again later.'']\<rparr>)))"

section \<open>A user message\<close>

subsection \<open>Step 1: the match the user means\<close>

definition current_matches_summary_text :: "match_list_entry list \<Rightarrow> string" where
  "current_matches_summary_text l =
     join nl (map (\<lambda>m. py_str (JInt (entry_index m)) @ ''. '' @ py_str (entry_name m)) l)"

definition debug_identified :: "string \<Rightarrow> json \<Rightarrow> json \<Rightarrow> event" where
  "debug_identified how selected_match_name selected_match_id =
     StWrite (''DEBUG: Identified match by '' @ how @ '': '' @ py_str selected_match_name
              @ '' (ID: '' @ py_str selected_match_id @ '')'')"

text \<open>The branch \<open>"match_number" in match_intent\<close>. The result is the pair
  \<open>(selected_match_id, selected_match_name)\<close>, \<open>None\<close> where nothing was selected.\<close>

definition select_by_number :: "dict list \<Rightarrow> json \<Rightarrow> (json \<times> json) run" where
  "select_by_number data match_intent =
     and_then (lift (py_subscript match_intent ''match_number'')) (\<lambda>match_number.
     and_then (lift (py_minus_one match_number)) (\<lambda>match_index.
     if 0 \<le> match_index \<and> match_index < int (length data)
     then (let selected_match_id = dict_get (data ! nat match_index) ''id'' JNull;
               selected_match_name = dict_get (data ! nat match_index) ''name'' JNull
           in and_then (emit (debug_identified ''number'' selected_match_name selected_match_id)) (\<lambda>_.
              ret (selected_match_id, selected_match_name)))
     else and_then (emit (StWarning (''Match number '' @ py_str match_number @ '' is out of range.''))) (\<lambda>_.
          ret (JNull, JNull))))"

text \<open>The \<open>for\<close> loop of the branch \<open>"match_name" in match_intent\<close>: the match at which
  the loop breaks, if any.\<close>

fun name_loop :: "json \<Rightarrow> dict list \<Rightarrow> py_exn + dict option" where
  "name_loop match_intent [] = Inr None"
| "name_loop match_intent (m # ms) =
     (case py_lower (dict_get m ''name'' (JStr [])) of
        Inl e \<Rightarrow> Inl e
      | Inr l \<Rightarrow>
          (case py_subscript match_intent ''match_name'' of
             Inl e \<Rightarrow> Inl e
           | Inr match_name \<Rightarrow>
               (case py_lower match_name of
                  Inl e \<Rightarrow> Inl e
                | Inr r \<Rightarrow> if l = r then Inr (Some m) else name_loop match_intent ms)))"

definition could_not_find :: "json \<Rightarrow> (json \<times> json) \<Rightarrow> (json \<times> json) run" where
  "could_not_find match_intent selected =
     (if \<not> truthy (fst selected)
      then and_then (lift (py_subscript match_intent ''match_name'')) (\<lambda>match_name.
           and_then (emit (StWarning (''Could not find match with name: '' @ py_str match_name @ ''.''))) (\<lambda>_.
           ret selected))
      else ret selected)"

definition select_by_name :: "dict list \<Rightarrow> json \<Rightarrow> (json \<times> json) run" where
  "select_by_name data match_intent =
     and_then (lift (name_loop match_intent data)) (\<lambda>found.
     case found of
       None \<Rightarrow> could_not_find match_intent (JNull, JNull)
     | Some m \<Rightarrow>
         (let selected_match_id = dict_get m ''id'' JNull;
              selected_match_name = dict_get m ''name'' JNull
          in and_then (emit (debug_identified ''name'' selected_match_name selected_match_id)) (\<lambda>_.
             could_not_find match_intent (selected_match_id, selected_match_name))))"

definition select_match :: "dict list \<Rightarrow> json \<Rightarrow> (json \<times> json) run" where
  "select_match data match_intent =
     (if truthy match_intent
      then and_then (lift (py_contains ''match_number'' match_intent)) (\<lambda>by_number.
           if by_number then select_by_number data match_intent
           else and_then (lift (py_contains ''match_name'' match_intent)) (\<lambda>by_name.
                if by_name then select_by_name data match_intent
                else ret (JNull, JNull)))
      else and_then (emit (StWrite ''DEBUG: No specific match intent detected by LLM.'')) (\<lambda>_.
           ret (JNull, JNull)))"

text \<open>Step 1 as a whole. \<open>match_intent\<close> is bound only when the guard holds, so the
  result carries it as an option.\<close>

definition identify_match :: "env \<Rightarrow> session \<Rightarrow> string \<Rightarrow> (json option \<times> json \<times> json) run" where
  "identify_match env s user_input =
     (if has_match_data s \<and> match_list_for_llm s \<noteq> []
      then and_then (get_match_intent env user_input (current_matches_summary_text (match_list_for_llm s))) (\<lambda>match_intent.
           and_then (select_match (match_data s) match_intent) (\<lambda>selected.
           ret (Some match_intent, selected)))
      else ret (None, JNull, JNull))"

subsection \<open>Step 2: the details of the selected match\<close>

definition then_r :: "py_exn + 'a \<Rightarrow> ('a \<Rightarrow> py_exn + 'b) \<Rightarrow> py_exn + 'b" where
  "then_r r f = (case r of Inl e \<Rightarrow> Inl e | Inr x \<Rightarrow> f x)"

fun map_r :: "('a \<Rightarrow> py_exn + 'b) \<Rightarrow> 'a list \<Rightarrow> py_exn + 'b list" where
  "map_r f [] = Inr []"
| "map_r f (x # xs) = then_r (f x) (\<lambda>y. then_r (map_r f xs) (\<lambda>ys. Inr (y # ys)))"

text \<open>\<open>isinstance(value, (str, int, float, bool))\<close>.\<close>

fun is_scalar :: "json \<Rightarrow> bool" where
  "is_scalar (JStr s) = True"
| "is_scalar (JInt i) = True"
| "is_scalar (JBool b) = True"
| "is_scalar v = False"

text \<open>\<open>x or default\<close>.\<close>

definition or_else :: "json \<Rightarrow> json \<Rightarrow> json" where
  "or_else x dflt = (if truthy x then x else dflt)"

definition info_block :: "json \<Rightarrow> json \<Rightarrow> json \<Rightarrow> py_exn + string" where
  "info_block selected_match_id selected_match_name match_info =
     (if truthy match_info
      then then_r (py_items match_info) (\<lambda>kvs.
           Inr (''Detailed Info for Match ID '' @ py_str selected_match_id @ '' (''
                @ py_str (or_else selected_match_name (JStr ''N/A'')) @ ''):'' @ nl
                @ concat (map (\<lambda>(k, v). ''- '' @ k @ '': '' @ py_str v @ nl)
                              (filter (\<lambda>(k, v). is_scalar v) kvs))
                @ nl))
      else Inr [])"

definition squad_line :: "json \<Rightarrow> py_exn + string" where
  "squad_line team_squad =
     then_r (py_get team_squad ''name'' (JStr ''Unknown Team'')) (\<lambda>team_name.
     then_r (py_get team_squad ''players'' (JArr [])) (\<lambda>listed.
     then_r (py_iter listed) (\<lambda>items.
     then_r (map_r (\<lambda>player. py_get player ''name'' (JStr ''N/A'')) items) (\<lambda>players.
     then_r (py_join '', '' players) (\<lambda>joined.
     Inr (''  - '' @ py_str team_name @ '': '' @ joined @ nl))))))"

definition squad_block :: "json \<Rightarrow> py_exn + string" where
  "squad_block match_squad =
     (if truthy match_squad
      then then_r (py_iter match_squad) (\<lambda>teams.
           then_r (map_r squad_line teams) (\<lambda>ls.
           Inr (''Squads:'' @ nl @ concat ls @ nl)))
      else Inr [])"

definition apology :: string where
  "apology =
     ''I understood you were asking about a specific match, but I couldn'' @ apos
     @ ''t find its details or ID. Please ensure the match number/name is correct and try again.''"

text \<open>The condition of the \<open>elif\<close>: it reads \<open>match_intent\<close>, which is unbound when step 1
  skipped the intent call.\<close>

definition intent_named_a_match :: "session \<Rightarrow> json option \<Rightarrow> py_exn + bool" where
  "intent_named_a_match s bound_intent =
     (if \<not> has_match_data s then Inr False
      else case bound_intent of
             None \<Rightarrow> Inl (PyExn NameError (''name '' @ apos @ ''match_intent'' @ apos @ '' is not defined''))
           | Some match_intent \<Rightarrow>
               if \<not> truthy match_intent then Inr False
               else then_r (py_contains ''match_number'' match_intent) (\<lambda>by_number.
                    if by_number then Inr True else py_contains ''match_name'' match_intent))"

definition detailed_match_info_for_llm :: "env \<Rightarrow> session \<Rightarrow> json option \<times> json \<times> json \<Rightarrow> string run" where
  "detailed_match_info_for_llm env s identified =
     (case identified of (bound_intent, selected_match_id, selected_match_name) \<Rightarrow>
      if truthy selected_match_id
      then and_then (emit (StSpinner (''Fetching details for ''
                       @ py_str (or_else selected_match_name (JStr ''the selected match'')) @ ''...''))) (\<lambda>_.
           and_then (get_match_info env selected_match_id) (\<lambda>match_info.
           and_then (get_match_squad env selected_match_id) (\<lambda>match_squad.
           and_then (lift (info_block selected_match_id selected_match_name match_info)) (\<lambda>info.
           and_then (lift (squad_block match_squad)) (\<lambda>squads.
           ret (info @ squads))))))
      else and_then (lift (intent_named_a_match s bound_intent)) (\<lambda>named.
           ret (if named then apology else [])))"

subsection \<open>Step 3: the prompt\<close>

definition general_match_data_for_llm :: "dict list \<Rightarrow> string" where
  "general_match_data_for_llm data =
     join nl (map (\<lambda>m. ''Match: '' @ py_str (dict_get m ''name'' (JStr ''N/A''))
                        @ '', Status: '' @ py_str (dict_get m ''status'' (JStr ''N/A''))
                        @ '', ID: '' @ py_str (dict_get m ''id'' (JStr ''N/A''))) data)"

definition context_for_llm :: "session \<Rightarrow> string \<Rightarrow> string" where
  "context_for_llm s detailed =
     (if has_match_data s
      then ''General Current Match Data:'' @ nl @ general_match_data_for_llm (match_data s) @ nl @ nl
      else [])
     @ (if detailed \<noteq> [] then detailed @ nl else [])"

definition full_prompt_to_gemini :: "session \<Rightarrow> string \<Rightarrow> string \<Rightarrow> string" where
  "full_prompt_to_gemini s detailed user_input =
     (if context_for_llm s detailed \<noteq> []
      then context_for_llm s detailed @ ''User Query: '' @ user_input
      else user_input)"

subsection \<open>Step 4: the streamed reply\<close>

text \<open>The cursor mark appended while the reply streams: the bytes of the literal in the
  source file.\<close>

definition cursor :: string where
  "cursor = [CHR 0xC3, CHR 0xA2, CHR 0xE2, CHR 0x80, CHR 0x93, CHR 0xC5, CHR 0x92]"

text \<open>The loop over the chunks, from the buffer \<open>full_bot_reply\<close> so far: what it shows in
  the response area, and the buffer at the end.\<close>

fun stream_loop :: "string \<Rightarrow> string list \<Rightarrow> event list \<times> string" where
  "stream_loop full_bot_reply [] = ([], full_bot_reply)"
| "stream_loop full_bot_reply (chunk_text # chunks) =
     (if chunk_text \<noteq> []
      then (case stream_loop (full_bot_reply @ chunk_text) chunks of
              (shown, final) \<Rightarrow> (ResponseArea (full_bot_reply @ chunk_text @ cursor) # shown, final))
      else stream_loop full_bot_reply chunks)"

definition stream_reply :: "env \<Rightarrow> string \<Rightarrow> string run" where
  "stream_reply env prompt =
     and_then (emit (SendMessage prompt)) (\<lambda>_.
     case send_message env prompt of
       SendRaised e \<Rightarrow> lift (Inl (PyExn ServiceError e))
     | Streamed chunks ending \<Rightarrow>
         (case stream_loop [] chunks of
            (shown, full_bot_reply) \<Rightarrow>
              (case ending of
                 StreamRaised e \<Rightarrow> (shown, Inl (PyExn ServiceError e))
               | StreamDone \<Rightarrow> (shown @ [ResponseArea full_bot_reply], Inr full_bot_reply))))"

subsection \<open>The turn\<close>

text \<open>The body of the \<open>try\<close>: the assistant's reply, or the exception that ended it.\<close>

definition try_body :: "env \<Rightarrow> session \<Rightarrow> string \<Rightarrow> string run" where
  "try_body env s user_input =
     and_then (identify_match env s user_input) (\<lambda>identified.
     and_then (detailed_match_info_for_llm env s identified) (\<lambda>detailed.
     and_then (emit (StWrite (''DEBUG: Sending to LLM (first 200 chars): ''
                  @ take 200 (full_prompt_to_gemini s detailed user_input) @ ''...''))) (\<lambda>_.
     stream_reply env (full_prompt_to_gemini s detailed user_input))))"

text \<open>The \<open>except Exception\<close> of the turn.\<close>

definition error_reply :: "py_exn \<Rightarrow> string" where
  "error_reply e = ''Error communicating with Gemini or fetching match details: '' @ exn_str e"

definition user_turn :: "env \<Rightarrow> session \<Rightarrow> string \<Rightarrow> event list \<times> session" where
  "user_turn env s user_input =
     (let s1 = s\<lparr>messages := messages s @ [user_says user_input]\<rparr> in
      case try_body env s1 user_input of
        (ev, Inr bot_reply) \<Rightarrow>
          ([UserBubble user_input, ResponseArea ''Thinking...''] @ ev,
           s1\<lparr>messages := messages s1 @ [assistant_says bot_reply]\<rparr>)
      | (ev, Inl e) \<Rightarrow>
          ([UserBubble user_input, ResponseArea ''Thinking...''] @ ev
             @ [ResponseArea (error_reply e), StError (''An error occurred: '' @ exn_str e)],
           s1\<lparr>messages := messages s1 @ [assistant_says (error_reply e)]\<rparr>))"

text \<open>\<open>if user_input:\<close> --- an empty input runs no turn.\<close>

definition on_user_input :: "env \<Rightarrow> session \<Rightarrow> string \<Rightarrow> event list \<times> session" where
  "on_user_input env s user_input = (if user_input \<noteq> [] then user_turn env s user_input else ([], s))"

section \<open>The Transcript Store\<close>

text \<open>
  \<open>backend.save_chat\<close> inserts one row into the table \<open>chat_history\<close>; the insert either
  raises (the text of the error is the input \<open>failure\<close>) or the table has the row appended.
\<close>

record chat_record =
  username :: string
  question :: string
  answer :: string

definition save_chat :: "string option \<Rightarrow> chat_record list \<Rightarrow> string \<Rightarrow> string \<Rightarrow> string \<Rightarrow> py_exn + chat_record list" where
  "save_chat failure chat_history username' question' answer' =
     (case failure of
        Some e \<Rightarrow> Inl (PyExn ServiceError e)
      | None \<Rightarrow> Inr (chat_history @ [\<lparr>username = username', question = question', answer = answer'\<rparr>]))"

text \<open>
  The application and the table together. \<open>main.py\<close> neither imports \<open>backend\<close> nor calls
  \<open>save_chat\<close>: a user message changes the session and leaves the table as it is.
\<close>

record world =
  app_session :: session
  chat_history_table :: "chat_record list"

definition main_on_user_input :: "env \<Rightarrow> world \<Rightarrow> string \<Rightarrow> event list \<times> world" where
  "main_on_user_input env w user_input =
     (case on_user_input env (app_session w) user_input of
        (ev, s') \<Rightarrow> (ev, w\<lparr>app_session := s'\<rparr>))"

section \<open>Observations and example inputs\<close>

text \<open>The text fragments a stream delivers: the chunks whose text is not empty
  (\<open>if chunk.text:\<close>).\<close>

definition fragments :: "string list \<Rightarrow> string list" where
  "fragments chunks = filter (\<lambda>t. t \<noteq> []) chunks"

text \<open>What a list of events holds: the prompts sent to the chat session, the requests sent
  to the match provider, the warnings shown.\<close>

definition prompts_sent :: "event list \<Rightarrow> string list" where
  "prompts_sent ev = concat (map (\<lambda>e. case e of SendMessage p \<Rightarrow> [p] | _ \<Rightarrow> []) ev)"


definition warnings_shown :: "event list \<Rightarrow> string list" where
  "warnings_shown ev = concat (map (\<lambda>e. case e of StWarning w \<Rightarrow> [w] | _ \<Rightarrow> []) ev)"

text \<open>The provider's answer to the request \<open>make_api_request\<close> sends, and the event of
  sending it.\<close>

definition provider_answer :: "env \<Rightarrow> string \<Rightarrow> json \<Rightarrow> http_result" where
  "provider_answer env url_type ident =
     requests_get env (get_url (CRICKET_API_KEY env) url_type ident) (get_params (CRICKET_API_KEY env) ident)"

definition request_event :: "env \<Rightarrow> string \<Rightarrow> json \<Rightarrow> event" where
  "request_event env url_type ident =
     HttpGet (get_url (CRICKET_API_KEY env) url_type ident) (get_params (CRICKET_API_KEY env) ident)"


text \<open>Steps 1 and 2 of a turn together: the events up to the detail text, and that text.\<close>

definition detail_steps :: "env \<Rightarrow> session \<Rightarrow> string \<Rightarrow> string run" where
  "detail_steps env s user_input =
     and_then (identify_match env s user_input) (detailed_match_info_for_llm env s)"

text \<open>A cached match is named \<open>s\<close>, case-insensitively (a match without a name counts as
  named by the empty text, the default the loop reads).\<close>

definition named :: "string \<Rightarrow> dict \<Rightarrow> bool" where
  "named s m = (case dict_get m ''name'' (JStr []) of JStr t \<Rightarrow> lower t = lower s | _ \<Rightarrow> False)"


text \<open>A new session, and services that answer a plain question with a reply streamed in
  three fragments.\<close>

definition fresh_session :: session where
  "fresh_session = \<lparr>messages = [], current_match_data = None, match_list_for_llm = []\<rparr>"

definition luck_env :: env where
  "luck_env =
     \<lparr>CRICKET_API_KEY = JStr ''key'',
      requests_get = (\<lambda>u p. RequestRaised ''no network''),
      generate_content = (\<lambda>q m. IntentParsed (JObj [])),
      send_message = (\<lambda>p. Streamed [''Go'', ''od'', '' luck''] StreamDone)\<rparr>"

text \<open>Two cached matches, and the session a refresh leaves for a list of matches.\<close>

definition team_a_vs_b :: dict where
  "team_a_vs_b = [(''id'', JStr ''m1''), (''name'', JStr ''Team A vs Team B''), (''status'', JStr ''Live'')]"

definition team_c_vs_d :: dict where
  "team_c_vs_d = [(''id'', JStr ''m2''), (''name'', JStr ''Team C vs Team D''), (''status'', JStr ''Toss'')]"

definition cached_session :: "dict list \<Rightarrow> session" where
  "cached_session ms = \<lparr>messages = [], current_match_data = Some ms, match_list_for_llm = lookup_list ms\<rparr>"

text \<open>A provider that answers 404, one that answers 200 with a refusal, and one that
  answers 300 with a payload that reports success.\<close>

definition not_found_env :: env where
  "not_found_env =
     luck_env\<lparr>requests_get := (\<lambda>u p. Responded
       \<lparr>status_code = 404, reason = ''Not Found'', response_url = u,
        response_json = Inl ''Expecting value: line 1 column 1 (char 0)''\<rparr>)\<rparr>"

definition refusing_env :: env where
  "refusing_env =
     luck_env\<lparr>requests_get := (\<lambda>u p. Responded
       \<lparr>status_code = 200, reason = ''OK'', response_url = u,
        response_json = Inr (JObj [(''status'', JStr ''failure''), (''reason'', JStr ''Invalid API Key'')])\<rparr>)\<rparr>"

definition multiple_choices_env :: env where
  "multiple_choices_env =
     luck_env\<lparr>requests_get := (\<lambda>u p. Responded
       \<lparr>status_code = 300, reason = ''Multiple Choices'', response_url = u,
        response_json = Inr (JObj [(''status'', JStr ''success''), (''data'', JArr [JObj team_a_vs_b])])\<rparr>)\<rparr>"

text \<open>An intent call that answers with a match number.\<close>

definition number_env :: "int \<Rightarrow> env" where
  "number_env n = luck_env\<lparr>generate_content := (\<lambda>q m. IntentParsed (JObj [(''match_number'', JInt n)]))\<rparr>"






section \<open>Computations with events\<close>

lemma and_then_Inr: "and_then (ev, Inr x) f = (case f x of (ev', r) \<Rightarrow> (ev @ ev', r))"
  by (simp add: and_then_def)

lemma and_then_Inl: "and_then (ev, Inl e) f = (ev, Inl e)"
  by (simp add: and_then_def)

lemmas run_simps = ret_def emit_def lift_def and_then_Inr and_then_Inl

lemma and_then_assoc: "and_then (and_then m f) g = and_then m (\<lambda>x. and_then (f x) g)"
  by (auto simp: and_then_def split: prod.splits sum.splits)

section \<open>The transcript does not influence a turn\<close>

lemma has_match_data_messages [simp]: "has_match_data (s\<lparr>messages := ms\<rparr>) = has_match_data s"
  by (simp add: has_match_data_def)

lemma match_data_messages [simp]: "match_data (s\<lparr>messages := ms\<rparr>) = match_data s"
  by (simp add: match_data_def)

lemma context_messages [simp]: "context_for_llm (s\<lparr>messages := ms\<rparr>) d = context_for_llm s d"
  by (simp add: context_for_llm_def)

lemma full_prompt_messages [simp]:
  "full_prompt_to_gemini (s\<lparr>messages := ms\<rparr>) d q = full_prompt_to_gemini s d q"
  by (simp add: full_prompt_to_gemini_def)

lemma detailed_messages [simp]:
  "detailed_match_info_for_llm env (s\<lparr>messages := ms\<rparr>) = detailed_match_info_for_llm env s"
proof
  fix idf
  show "detailed_match_info_for_llm env (s\<lparr>messages := ms\<rparr>) idf = detailed_match_info_for_llm env s idf"
    by (cases idf) (simp add: detailed_match_info_for_llm_def intent_named_a_match_def)
qed

lemma identify_messages [simp]:
  "identify_match env (s\<lparr>messages := ms\<rparr>) q = identify_match env s q"
  by (simp add: identify_match_def)

lemma detail_steps_messages [simp]:
  "detail_steps env (s\<lparr>messages := ms\<rparr>) q = detail_steps env s q"
  by (simp add: detail_steps_def)

section \<open>The streamed reply\<close>

lemma stream_loop_shown:
  "stream_loop buf chunks =
     (map (\<lambda>i. ResponseArea (buf @ concat (take (Suc i) (fragments chunks)) @ cursor))
          [0 ..< length (fragments chunks)],
      buf @ concat chunks)"
proof (induction chunks arbitrary: buf)
  case Nil
  show ?case by (simp add: fragments_def)
next
  case (Cons t ts)
  show ?case
  proof (cases "t = []")
    case True
    then show ?thesis using Cons.IH [of buf] by (simp add: fragments_def)
  next
    case False
    then show ?thesis
      using Cons.IH [of "buf @ t"]
      by (simp add: fragments_def upt_conv_Cons map_Suc_upt [symmetric] del: upt_Suc)
  qed
qed



lemma try_body_steps:
  assumes "and_then (identify_match env s q) (detailed_match_info_for_llm env s) = (ev0, Inr detailed)"
  shows "try_body env s q =
           (case stream_reply env (full_prompt_to_gemini s detailed q) of
              (ev, r) \<Rightarrow>
                (ev0 @ StWrite (''DEBUG: Sending to LLM (first 200 chars): ''
                          @ take 200 (full_prompt_to_gemini s detailed q) @ ''...'') # ev, r))"
proof -
  have "try_body env s q =
          and_then (and_then (identify_match env s q) (detailed_match_info_for_llm env s))
            (\<lambda>detailed. and_then (emit (StWrite (''DEBUG: Sending to LLM (first 200 chars): ''
                  @ take 200 (full_prompt_to_gemini s detailed q) @ ''...'')))
               (\<lambda>_. stream_reply env (full_prompt_to_gemini s detailed q)))"
    by (simp add: try_body_def and_then_assoc)
  then show ?thesis
    using assms by (simp add: run_simps split: prod.splits)
qed



section \<open>The prompt\<close>

lemma prompts_sent_append: "prompts_sent (a @ b) = prompts_sent a @ prompts_sent b"
  by (simp add: prompts_sent_def)

lemma prompts_sent_Cons:
  "prompts_sent (e # ev) = (case e of SendMessage p \<Rightarrow> [p] | _ \<Rightarrow> []) @ prompts_sent ev"
  by (simp add: prompts_sent_def)

lemma prompts_sent_Nil: "prompts_sent [] = []"
  by (simp add: prompts_sent_def)

lemma prompts_and_then:
  "prompts_sent (fst (and_then m f)) =
     prompts_sent (fst m) @ (case snd m of Inl e \<Rightarrow> [] | Inr x \<Rightarrow> prompts_sent (fst (f x)))"
  by (cases m) (auto simp: and_then_def prompts_sent_append split: sum.splits prod.splits)

lemma prompts_lift: "prompts_sent (fst (lift r)) = []"
  by (simp add: lift_def prompts_sent_Nil)

lemma prompts_ret: "prompts_sent (fst (ret x)) = []"
  by (simp add: ret_def prompts_sent_Nil)

lemma prompts_network_error: "prompts_sent (fst (network_error t e)) = []"
  by (simp add: network_error_def run_simps prompts_sent_Cons prompts_sent_Nil)

lemma prompts_make_api_request: "prompts_sent (fst (make_api_request env t i)) = []"
  by (simp add: make_api_request_def Let_def prompts_and_then prompts_lift prompts_ret
      prompts_network_error emit_def prompts_sent_Cons prompts_sent_Nil
      split: http_result.splits option.splits sum.splits)

lemma prompts_get_match_intent: "prompts_sent (fst (get_match_intent env q m)) = []"
  by (simp add: get_match_intent_def prompts_and_then prompts_ret emit_def prompts_sent_Cons
      prompts_sent_Nil split: intent_reply.splits sum.splits)

lemma prompts_select_by_number: "prompts_sent (fst (select_by_number data i)) = []"
  by (simp add: select_by_number_def Let_def prompts_and_then prompts_lift prompts_ret emit_def
      debug_identified_def prompts_sent_Cons prompts_sent_Nil split: sum.splits)

lemma prompts_could_not_find: "prompts_sent (fst (could_not_find i sel)) = []"
  by (simp add: could_not_find_def prompts_and_then prompts_lift prompts_ret emit_def
      prompts_sent_Cons prompts_sent_Nil split: sum.splits)

lemma prompts_select_by_name: "prompts_sent (fst (select_by_name data i)) = []"
  by (simp add: select_by_name_def Let_def prompts_and_then prompts_lift prompts_ret emit_def
      debug_identified_def prompts_could_not_find prompts_sent_Cons prompts_sent_Nil
      split: sum.splits option.splits)

lemma prompts_select_match: "prompts_sent (fst (select_match data i)) = []"
  by (simp add: select_match_def prompts_and_then prompts_lift prompts_ret emit_def
      prompts_select_by_number prompts_select_by_name prompts_sent_Cons prompts_sent_Nil
      split: sum.splits)

lemma prompts_identify_match: "prompts_sent (fst (identify_match env s q)) = []"
  by (simp add: identify_match_def prompts_and_then prompts_ret prompts_get_match_intent
      prompts_select_match split: sum.splits)

lemma prompts_detailed: "prompts_sent (fst (detailed_match_info_for_llm env s idf)) = []"
  by (cases idf) (simp add: detailed_match_info_for_llm_def prompts_and_then prompts_lift prompts_ret
      emit_def get_match_info_def get_match_squad_def prompts_make_api_request
      prompts_sent_Cons prompts_sent_Nil split: sum.splits)

lemma prompts_steps:
  "prompts_sent (fst (and_then (identify_match env s q) (detailed_match_info_for_llm env s))) = []"
  by (simp add: prompts_and_then prompts_identify_match prompts_detailed split: sum.splits)

lemma prompts_stream_loop: "prompts_sent (fst (stream_loop buf chunks)) = []"
  by (simp add: stream_loop_shown prompts_sent_def)

lemma prompts_stream_reply: "prompts_sent (fst (stream_reply env p)) = [p]"
  by (simp add: stream_reply_def run_simps stream_loop_shown prompts_sent_def
      split: chat_reply.splits stream_end.splits)

lemma try_body_raised:
  assumes "and_then (identify_match env s q) (detailed_match_info_for_llm env s) = (ev0, Inl e)"
  shows "try_body env s q = (ev0, Inl e)"
proof -
  have "try_body env s q =
          and_then (and_then (identify_match env s q) (detailed_match_info_for_llm env s))
            (\<lambda>detailed. and_then (emit (StWrite (''DEBUG: Sending to LLM (first 200 chars): ''
                  @ take 200 (full_prompt_to_gemini s detailed q) @ ''...'')))
               (\<lambda>_. stream_reply env (full_prompt_to_gemini s detailed q)))"
    by (simp add: try_body_def and_then_assoc)
  then show ?thesis using assms by (simp add: run_simps)
qed

lemma prompts_try_body:
  "prompts_sent (fst (try_body env s q)) =
     (case snd (and_then (identify_match env s q) (detailed_match_info_for_llm env s)) of
        Inl e \<Rightarrow> []
      | Inr d \<Rightarrow> [full_prompt_to_gemini s d q])"
proof (cases "and_then (identify_match env s q) (detailed_match_info_for_llm env s)")
  case (Pair ev0 r)
  have none: "prompts_sent ev0 = []"
    using prompts_steps [of env s q] Pair by simp
  show ?thesis
  proof (cases r)
    case (Inl e)
    then show ?thesis using try_body_raised [of env s q ev0 e] Pair none by simp
  next
    case (Inr d)
    then show ?thesis
      using try_body_steps [of env s q ev0 d] Pair none prompts_stream_reply [of env "full_prompt_to_gemini s d q"]
      by (simp add: prompts_sent_append prompts_sent_Cons split: prod.splits)
  qed
qed

lemma prompts_user_turn:
  "prompts_sent (fst (user_turn env s q)) =
     prompts_sent (fst (try_body env (s\<lparr>messages := messages s @ [user_says q]\<rparr>) q))"
  by (simp add: user_turn_def Let_def prompts_sent_append prompts_sent_Cons prompts_sent_Nil
      split: prod.splits sum.splits)





section \<open>The transcript and the store\<close>

lemma user_turn_messages:
  "\<exists>bot_reply. snd (user_turn env s q) = s\<lparr>messages := messages s @ [user_says q, assistant_says bot_reply]\<rparr>"
  by (cases "try_body env (s\<lparr>messages := messages s @ [user_says q]\<rparr>) q")
     (auto simp: user_turn_def Let_def split: sum.splits)

text \<open>
  C1 (as amended). A completed turn appends the user's message and the assistant's reply
  to the session transcript and leaves the table \<open>chat_history\<close> as it was: the turn
  writes no record. A record is written by \<open>save_chat\<close> only, one row with the given
  username, question and answer for each call that does not raise.
\<close>

theorem turn_records_transcript_only:
  "(q \<noteq> [] \<longrightarrow>
      (\<exists>bot_reply. app_session (snd (main_on_user_input env w q))
         = (app_session w)\<lparr>messages := messages (app_session w) @ [user_says q, assistant_says bot_reply]\<rparr>))
   \<and> chat_history_table (snd (main_on_user_input env w q)) = chat_history_table w
   \<and> save_chat None table u q a = Inr (table @ [\<lparr>username = u, question = q, answer = a\<rparr>])"
proof -
  have "q \<noteq> [] \<Longrightarrow> \<exists>bot_reply. app_session (snd (main_on_user_input env w q))
         = (app_session w)\<lparr>messages := messages (app_session w) @ [user_says q, assistant_says bot_reply]\<rparr>"
    using user_turn_messages [of env "app_session w" q]
    by (auto simp: main_on_user_input_def on_user_input_def split: prod.splits)
  moreover have "chat_history_table (snd (main_on_user_input env w q)) = chat_history_table w"
    by (simp add: main_on_user_input_def split: prod.splits)
  ultimately show ?thesis
    by (simp add: save_chat_def)
qed

lemma luck_turn:
  "user_turn luck_env fresh_session ''wish me luck'' =
     ([UserBubble ''wish me luck'', ResponseArea ''Thinking...'',
       StWrite ''DEBUG: Sending to LLM (first 200 chars): wish me luck...'',
       SendMessage ''wish me luck'',
       ResponseArea (''Go'' @ cursor), ResponseArea (''Good'' @ cursor), ResponseArea (''Good luck'' @ cursor),
       ResponseArea ''Good luck''],
      fresh_session\<lparr>messages := [user_says ''wish me luck'', assistant_says ''Good luck'']\<rparr>)"
  by (simp add: user_turn_def try_body_def identify_match_def detailed_match_info_for_llm_def
      intent_named_a_match_def has_match_data_def fresh_session_def run_simps stream_reply_def
      luck_env_def full_prompt_to_gemini_def context_for_llm_def)

theorem turn_records_transcript_only_witness:
  "app_session (snd (main_on_user_input luck_env
       \<lparr>app_session = fresh_session, chat_history_table = []\<rparr> ''wish me luck''))
     = fresh_session\<lparr>messages := [user_says ''wish me luck'', assistant_says ''Good luck'']\<rparr>
   \<and> chat_history_table (snd (main_on_user_input luck_env
       \<lparr>app_session = fresh_session, chat_history_table = []\<rparr> ''wish me luck'')) = []
   \<and> save_chat None [] ''ann'' ''wish me luck'' ''Good luck''
     = Inr [\<lparr>username = ''ann'', question = ''wish me luck'', answer = ''Good luck''\<rparr>]"
  using turn_records_transcript_only [of "''wish me luck''" luck_env
      "\<lparr>app_session = fresh_session, chat_history_table = []\<rparr>" "[]" "''ann''" "''Good luck''"]
  by (simp add: main_on_user_input_def on_user_input_def luck_turn)

theorem turn_writes_no_chat_record:
  "messages (app_session (snd (main_on_user_input luck_env
       \<lparr>app_session = fresh_session, chat_history_table = []\<rparr> ''wish me luck'')))
     = [user_says ''wish me luck'', assistant_says ''Good luck'']
   \<and> chat_history_table (snd (main_on_user_input luck_env
       \<lparr>app_session = fresh_session, chat_history_table = []\<rparr> ''wish me luck'')) = []"
  by (simp add: main_on_user_input_def on_user_input_def luck_turn)

section \<open>Failures of the match provider\<close>

lemma request_raised:
  assumes "requests_get env (get_url (CRICKET_API_KEY env) t i) (get_params (CRICKET_API_KEY env) i) = RequestRaised e"
  shows "make_api_request env t i =
           ([HttpGet (get_url (CRICKET_API_KEY env) t i) (get_params (CRICKET_API_KEY env) i),
             StError (''Network or API error for '' @ t @ '': '' @ e)], Inr JNull)"
  using assms by (simp add: make_api_request_def network_error_def run_simps)

lemma raise_for_status_iff:
  "raise_for_status r \<noteq> None \<longleftrightarrow> 400 \<le> status_code r \<and> status_code r < 600"
  by (auto simp: raise_for_status_def)

lemma bad_status:
  assumes "requests_get env (get_url (CRICKET_API_KEY env) t i) (get_params (CRICKET_API_KEY env) i) = Responded r"
    and "400 \<le> status_code r" and "status_code r < 600"
  shows "\<exists>e. raise_for_status r = Some e \<and> make_api_request env t i =
           ([HttpGet (get_url (CRICKET_API_KEY env) t i) (get_params (CRICKET_API_KEY env) i),
             StError (''Network or API error for '' @ t @ '': '' @ e)], Inr JNull)"
proof -
  obtain e where e: "raise_for_status r = Some e"
    using raise_for_status_iff [of r] assms(2,3) by auto
  then show ?thesis
    using assms(1) by (simp add: make_api_request_def network_error_def run_simps)
qed

lemma provider_refused:
  assumes "requests_get env (get_url (CRICKET_API_KEY env) t i) (get_params (CRICKET_API_KEY env) i) = Responded r"
    and "\<not> (400 \<le> status_code r \<and> status_code r < 600)"
    and "response_json r = Inr (JObj d)"
    and "dict_get d ''status'' JNull \<noteq> JStr ''success''"
  shows "make_api_request env t i =
           ([HttpGet (get_url (CRICKET_API_KEY env) t i) (get_params (CRICKET_API_KEY env) i),
             StError (''Cricket API call for '' @ t @ '' failed: ''
                      @ py_str (dict_get d ''reason'' (JStr ''Unknown error'')))], Inr JNull)"
proof -
  have "raise_for_status r = None"
    using raise_for_status_iff [of r] assms(2) by auto
  then show ?thesis
    using assms(1,3,4) by (simp add: make_api_request_def run_simps py_get_def)
qed

lemma info_failed:
  assumes "truthy sid" and "get_match_info env sid = (ev1, Inr JNull)"
    and "get_match_squad env sid = (ev2, Inr squad)"
  shows "detailed_match_info_for_llm env s (b, sid, sname) =
           (StSpinner (''Fetching details for '' @ py_str (or_else sname (JStr ''the selected match'')) @ ''...'')
              # ev1 @ ev2, squad_block squad)"
  using assms
  by (cases "squad_block squad") (simp_all add: detailed_match_info_for_llm_def run_simps info_block_def)

lemma squad_failed:
  assumes "truthy sid" and "get_match_info env sid = (ev1, Inr info)"
    and "get_match_squad env sid = (ev2, Inr JNull)"
  shows "detailed_match_info_for_llm env s (b, sid, sname) =
           (StSpinner (''Fetching details for '' @ py_str (or_else sname (JStr ''the selected match'')) @ ''...'')
              # ev1 @ ev2, info_block sid sname info)"
  using assms
  by (cases "info_block sid sname info") (simp_all add: detailed_match_info_for_llm_def run_simps squad_block_def)

lemma refresh_failed:
  assumes "get_current_matches env = (ev, Inr JNull)"
  shows "fetch_latest_matches env s =
           (StSpinner ''Fetching current matches...'' # ev,
            Inr (s\<lparr>messages := messages s
                   @ [assistant_says ''Could not fetch current matches. Please try again later.'']\<rparr>))"
  using assms by (simp add: fetch_latest_matches_def run_simps)

lemma turn_after_failed_fetch:
  assumes "identify_match env s q = (ev0, Inr (b, sid, sname))"
    and "truthy sid"
    and "get_match_info env sid = (ev1, Inr JNull)"
    and "get_match_squad env sid = (ev2, Inr JNull)"
  shows "prompts_sent (fst (user_turn env s q)) = [full_prompt_to_gemini s [] q]"
  using assms info_failed [OF assms(2,3,4), of "s\<lparr>messages := messages s @ [user_says q]\<rparr>" b sname]
  by (simp add: prompts_user_turn prompts_try_body run_simps squad_block_def)

text \<open>
  C7 (as amended). A request that raises, and a response with a 4xx or 5xx status, is a
  failure reported with the transport error; any other response whose payload is an
  object with a status other than \<open>success\<close> is a failure reported with the provider's
  reason (\<open>Unknown error\<close> when it gives none). A failure is the result \<open>None\<close>: the
  detail text then lacks that section, a turn whose two detail requests both failed still
  sends its prompt with the general match list only, and a failed refresh answers that
  the matches could not be fetched.
\<close>

theorem provider_failures_degrade:
  "(provider_answer env t i = RequestRaised e \<longrightarrow>
      make_api_request env t i
        = ([request_event env t i, StError (''Network or API error for '' @ t @ '': '' @ e)], Inr JNull))
   \<and> (provider_answer env t i = Responded r \<and> 400 \<le> status_code r \<and> status_code r < 600 \<longrightarrow>
      (\<exists>e'. raise_for_status r = Some e' \<and> make_api_request env t i
        = ([request_event env t i, StError (''Network or API error for '' @ t @ '': '' @ e')], Inr JNull)))
   \<and> (provider_answer env t i = Responded r \<and> \<not> (400 \<le> status_code r \<and> status_code r < 600)
        \<and> response_json r = Inr (JObj d) \<and> dict_get d ''status'' JNull \<noteq> JStr ''success'' \<longrightarrow>
      make_api_request env t i
        = ([request_event env t i,
            StError (''Cricket API call for '' @ t @ '' failed: ''
                     @ py_str (dict_get d ''reason'' (JStr ''Unknown error'')))], Inr JNull))
   \<and> (truthy sid \<and> get_match_info env sid = (ev_info, Inr JNull) \<and> get_match_squad env sid = (ev_squad, Inr squad) \<longrightarrow>
      detailed_match_info_for_llm env s (b, sid, sname)
        = (StSpinner (''Fetching details for '' @ py_str (or_else sname (JStr ''the selected match'')) @ ''...'')
             # ev_info @ ev_squad, squad_block squad))
   \<and> (truthy sid \<and> get_match_info env sid = (ev_info, Inr info) \<and> get_match_squad env sid = (ev_squad, Inr JNull) \<longrightarrow>
      detailed_match_info_for_llm env s (b, sid, sname)
        = (StSpinner (''Fetching details for '' @ py_str (or_else sname (JStr ''the selected match'')) @ ''...'')
             # ev_info @ ev_squad, info_block sid sname info))
   \<and> (identify_match env s q = (ev_intent, Inr (b, sid, sname))
        \<and> truthy sid \<and> get_match_info env sid = (ev_info, Inr JNull) \<and> get_match_squad env sid = (ev_squad, Inr JNull) \<longrightarrow>
      prompts_sent (fst (user_turn env s q)) = [full_prompt_to_gemini s [] q])
   \<and> (get_current_matches env = (ev, Inr JNull) \<longrightarrow>
      fetch_latest_matches env s
        = (StSpinner ''Fetching current matches...'' # ev,
           Inr (s\<lparr>messages := messages s
                  @ [assistant_says ''Could not fetch current matches. Please try again later.'']\<rparr>)))"
  using request_raised [of env t i e] bad_status [of env t i r] provider_refused [of env t i r d]
    info_failed [of sid env ev_info ev_squad squad s b sname] squad_failed [of sid env ev_info info ev_squad s b sname]
    turn_after_failed_fetch [of env s q ev_intent b sid sname ev_info ev_squad] refresh_failed [of env ev s]
  by (simp add: provider_answer_def request_event_def)

lemma luck_request:
  "make_api_request luck_env ''match_info'' (JStr ''m1'') =
     ([HttpGet ''https://api.cricapi.com/v1/match_info?apikey=key&offset=0&id=m1''
         [(''apikey'', JStr ''key''), (''offset'', JInt 0), (''id'', JStr ''m1'')],
       StError ''Network or API error for match_info: no network''], Inr JNull)"
  by (simp add: make_api_request_def luck_env_def get_url_def get_params_def py_str_def
      network_error_def run_simps)

lemma luck_squad_request:
  "make_api_request luck_env ''match_squad'' (JStr ''m1'') =
     ([HttpGet ''https://api.cricapi.com/v1/match_squad?apikey=key&offset=0&id=m1''
         [(''apikey'', JStr ''key''), (''offset'', JInt 0), (''id'', JStr ''m1'')],
       StError ''Network or API error for match_squad: no network''], Inr JNull)"
  by (simp add: make_api_request_def luck_env_def get_url_def get_params_def py_str_def
      network_error_def run_simps)

lemma luck_matches_request:
  "make_api_request luck_env ''currentMatches'' JNull =
     ([HttpGet ''https://api.cricapi.com/v1/currentMatches?apikey=key&offset=0''
         [(''apikey'', JStr ''key''), (''offset'', JInt 0)],
       StError ''Network or API error for currentMatches: no network''], Inr JNull)"
  by (simp add: make_api_request_def luck_env_def get_url_def get_params_def py_str_def
      network_error_def run_simps)

lemma one_match_identified:
  "identify_match (number_env 1) (cached_session [team_a_vs_b]) ''tell me about match 1''
   = ([IntentCall ''tell me about match 1'' ''1. Team A vs Team B'',
       StWrite ''DEBUG: Identified match by number: Team A vs Team B (ID: m1)''],
      Inr (Some (JObj [(''match_number'', JInt 1)]), JStr ''m1'', JStr ''Team A vs Team B''))"
  by (simp add: identify_match_def cached_session_def has_match_data_def match_data_def lookup_list_def
      lookup_entry_def team_a_vs_b_def dict_get_def current_matches_summary_text_def py_str_def
      string_of_int_def string_of_nat.simps get_match_intent_def number_env_def luck_env_def
      select_match_def py_contains_def select_by_number_def py_subscript_def py_minus_one_def
      debug_identified_def run_simps)

theorem provider_failures_degrade_witness:
  "make_api_request luck_env ''match_info'' (JStr ''m1'') =
     ([HttpGet ''https://api.cricapi.com/v1/match_info?apikey=key&offset=0&id=m1''
         [(''apikey'', JStr ''key''), (''offset'', JInt 0), (''id'', JStr ''m1'')],
       StError ''Network or API error for match_info: no network''], Inr JNull)
   \<and> make_api_request not_found_env ''match_info'' (JStr ''m1'') =
     ([HttpGet ''https://api.cricapi.com/v1/match_info?apikey=key&offset=0&id=m1''
         [(''apikey'', JStr ''key''), (''offset'', JInt 0), (''id'', JStr ''m1'')],
       StError ''Network or API error for match_info: 404 Client Error: Not Found for url: https://api.cricapi.com/v1/match_info?apikey=key&offset=0&id=m1''],
      Inr JNull)
   \<and> make_api_request refusing_env ''match_info'' (JStr ''m1'') =
     ([HttpGet ''https://api.cricapi.com/v1/match_info?apikey=key&offset=0&id=m1''
         [(''apikey'', JStr ''key''), (''offset'', JInt 0), (''id'', JStr ''m1'')],
       StError ''Cricket API call for match_info failed: Invalid API Key''], Inr JNull)
   \<and> detailed_match_info_for_llm luck_env fresh_session (None, JStr ''m1'', JStr ''Team A vs Team B'') =
     ([StSpinner ''Fetching details for Team A vs Team B...'',
       HttpGet ''https://api.cricapi.com/v1/match_info?apikey=key&offset=0&id=m1''
         [(''apikey'', JStr ''key''), (''offset'', JInt 0), (''id'', JStr ''m1'')],
       StError ''Network or API error for match_info: no network'',
       HttpGet ''https://api.cricapi.com/v1/match_squad?apikey=key&offset=0&id=m1''
         [(''apikey'', JStr ''key''), (''offset'', JInt 0), (''id'', JStr ''m1'')],
       StError ''Network or API error for match_squad: no network''], Inr [])
   \<and> prompts_sent (fst (user_turn (number_env 1) (cached_session [team_a_vs_b]) ''tell me about match 1''))
     = [''General Current Match Data:'' @ nl @ ''Match: Team A vs Team B, Status: Live, ID: m1'' @ nl @ nl
        @ ''User Query: tell me about match 1'']
   \<and> fetch_latest_matches luck_env fresh_session =
     ([StSpinner ''Fetching current matches...'',
       HttpGet ''https://api.cricapi.com/v1/currentMatches?apikey=key&offset=0''
         [(''apikey'', JStr ''key''), (''offset'', JInt 0)],
       StError ''Network or API error for currentMatches: no network''],
      Inr (fresh_session\<lparr>messages := [assistant_says ''Could not fetch current matches. Please try again later.'']\<rparr>))"
proof -
  let ?i = "JStr ''m1''"
  let ?u = "''https://api.cricapi.com/v1/match_info?apikey=key&offset=0&id=m1''"
  let ?p = "[(''apikey'', JStr ''key''), (''offset'', JInt 0), (''id'', JStr ''m1'')]"
  have url: "get_url (JStr ''key'') ''match_info'' ?i = ?u" "get_params (JStr ''key'') ?i = ?p"
    by (simp_all add: get_url_def get_params_def py_str_def)
  have c1: "make_api_request luck_env ''match_info'' ?i =
     ([HttpGet ?u ?p, StError ''Network or API error for match_info: no network''], Inr JNull)"
    using provider_failures_degrade [where env = luck_env and t = "''match_info''" and i = ?i and e = "''no network''"]
    by (simp add: provider_answer_def request_event_def luck_env_def url)
  have c2: "make_api_request not_found_env ''match_info'' ?i =
     ([HttpGet ?u ?p, StError (''Network or API error for match_info: 404 Client Error: Not Found for url: '' @ ?u)], Inr JNull)"
    using provider_failures_degrade [where env = not_found_env and t = "''match_info''" and i = ?i
        and r = "\<lparr>status_code = 404, reason = ''Not Found'', response_url = ?u,
                  response_json = Inl ''Expecting value: line 1 column 1 (char 0)''\<rparr>"]
    by (simp add: provider_answer_def request_event_def not_found_env_def luck_env_def url
        raise_for_status_def string_of_int_def string_of_nat.simps)
  have c3: "make_api_request refusing_env ''match_info'' ?i =
     ([HttpGet ?u ?p, StError ''Cricket API call for match_info failed: Invalid API Key''], Inr JNull)"
    using provider_failures_degrade [where env = refusing_env and t = "''match_info''" and i = ?i
        and r = "\<lparr>status_code = 200, reason = ''OK'', response_url = ?u,
                  response_json = Inr (JObj [(''status'', JStr ''failure''), (''reason'', JStr ''Invalid API Key'')])\<rparr>"
        and d = "[(''status'', JStr ''failure''), (''reason'', JStr ''Invalid API Key'')]"]
    by (simp add: provider_answer_def request_event_def refusing_env_def luck_env_def url
        dict_get_def py_str_def)
  have info: "get_match_info luck_env ?i = (fst (make_api_request luck_env ''match_info'' ?i), Inr JNull)"
    by (simp add: get_match_info_def luck_request)
  have squad: "get_match_squad luck_env ?i = (fst (make_api_request luck_env ''match_squad'' ?i), Inr JNull)"
    by (simp add: get_match_squad_def luck_squad_request)
  have c4: "detailed_match_info_for_llm luck_env fresh_session (None, ?i, JStr ''Team A vs Team B'') =
     (StSpinner ''Fetching details for Team A vs Team B...''
        # fst (make_api_request luck_env ''match_info'' ?i) @ fst (make_api_request luck_env ''match_squad'' ?i),
      Inr [])"
    using provider_failures_degrade [where env = luck_env and sid = ?i and squad = JNull
        and ev_info = "fst (make_api_request luck_env ''match_info'' ?i)"
        and ev_squad = "fst (make_api_request luck_env ''match_squad'' ?i)"
        and s = fresh_session and b = None and sname = "JStr ''Team A vs Team B''"] info squad
    by (simp add: squad_block_def or_else_def py_str_def)
  have info1: "get_match_info (number_env 1) ?i = (fst (make_api_request luck_env ''match_info'' ?i), Inr JNull)"
    using luck_request by (simp add: get_match_info_def make_api_request_def number_env_def)
  have squad1: "get_match_squad (number_env 1) ?i = (fst (make_api_request luck_env ''match_squad'' ?i), Inr JNull)"
    using luck_squad_request by (simp add: get_match_squad_def make_api_request_def number_env_def)
  have c5: "prompts_sent (fst (user_turn (number_env 1) (cached_session [team_a_vs_b]) ''tell me about match 1''))
     = [full_prompt_to_gemini (cached_session [team_a_vs_b]) [] ''tell me about match 1'']"
    using provider_failures_degrade [where env = "number_env 1" and s = "cached_session [team_a_vs_b]"
        and q = "''tell me about match 1''" and sid = ?i and b = "Some (JObj [(''match_number'', JInt 1)])"
        and sname = "JStr ''Team A vs Team B''"
        and ev_intent = "[IntentCall ''tell me about match 1'' ''1. Team A vs Team B'',
                    StWrite ''DEBUG: Identified match by number: Team A vs Team B (ID: m1)'']"
        and ev_info = "fst (make_api_request luck_env ''match_info'' ?i)"
        and ev_squad = "fst (make_api_request luck_env ''match_squad'' ?i)"]
      one_match_identified info1 squad1
    by simp
  have prompt: "full_prompt_to_gemini (cached_session [team_a_vs_b]) [] ''tell me about match 1''
     = ''General Current Match Data:'' @ nl @ ''Match: Team A vs Team B, Status: Live, ID: m1'' @ nl @ nl
        @ ''User Query: tell me about match 1''"
    by (simp add: full_prompt_to_gemini_def context_for_llm_def has_match_data_def match_data_def
        cached_session_def general_match_data_for_llm_def team_a_vs_b_def dict_get_def py_str_def nl_def)
  have c6: "fetch_latest_matches luck_env fresh_session =
     (StSpinner ''Fetching current matches...'' # fst (make_api_request luck_env ''currentMatches'' JNull),
      Inr (fresh_session\<lparr>messages := messages fresh_session
             @ [assistant_says ''Could not fetch current matches. Please try again later.'']\<rparr>))"
    using provider_failures_degrade [where env = luck_env and s = fresh_session
        and ev = "fst (make_api_request luck_env ''currentMatches'' JNull)"]
    by (simp add: get_current_matches_def luck_matches_request)
  show ?thesis
    using c1 c2 c3 c4 c5 c6
    by (simp add: prompt luck_request luck_squad_request luck_matches_request fresh_session_def)
qed

theorem success_payload_under_status_300:
  "make_api_request multiple_choices_env ''currentMatches'' JNull =
     ([HttpGet ''https://api.cricapi.com/v1/currentMatches?apikey=key&offset=0''
         [(''apikey'', JStr ''key''), (''offset'', JInt 0)]],
      Inr (JArr [JObj team_a_vs_b]))"
  by (simp add: make_api_request_def multiple_choices_env_def luck_env_def get_url_def get_params_def
      py_str_def raise_for_status_def py_get_def dict_get_def run_simps)

section \<open>The fallback on the user query\<close>
















section \<open>The match the user means\<close>

lemma prompts_of_turn:
  assumes "detail_steps env s q = (ev, Inr detailed)"
  shows "prompts_sent (fst (user_turn env s q)) = [full_prompt_to_gemini s detailed q]"
  using assms by (simp add: prompts_user_turn prompts_try_body detail_steps_def)

lemma identify_parsed:
  assumes "has_match_data s" and "match_list_for_llm s \<noteq> []"
    and "generate_content env q (current_matches_summary_text (match_list_for_llm s)) = IntentParsed intent"
  shows "identify_match env s q =
           and_then ([IntentCall q (current_matches_summary_text (match_list_for_llm s))], Inr intent)
             (\<lambda>match_intent. and_then (select_match (match_data s) match_intent)
                (\<lambda>selected. ret (Some match_intent, selected)))"
  using assms by (simp add: identify_match_def get_match_intent_def run_simps)

lemma key_present: "map_of kvs k = Some v \<Longrightarrow> k \<in> fst ` set kvs"
  by (metis map_of_eq_None_iff option.distinct(1))

lemma select_number_in_range:
  assumes "map_of kvs ''match_number'' = Some (JInt n)" and "1 \<le> n" and "n \<le> int (length data)"
  shows "select_match data (JObj kvs) =
           ([debug_identified ''number'' (dict_get (data ! nat (n - 1)) ''name'' JNull)
               (dict_get (data ! nat (n - 1)) ''id'' JNull)],
            Inr (dict_get (data ! nat (n - 1)) ''id'' JNull, dict_get (data ! nat (n - 1)) ''name'' JNull))"
proof -
  have "kvs \<noteq> []" using assms(1) by auto
  moreover have "''match_number'' \<in> fst ` set kvs" using assms(1) by (rule key_present)
  ultimately show ?thesis
    using assms
    by (simp add: select_match_def py_contains_def select_by_number_def py_subscript_def
        py_minus_one_def Let_def run_simps)
qed

lemma select_number_out_of_range:
  assumes "map_of kvs ''match_number'' = Some (JInt n)" and "\<not> (1 \<le> n \<and> n \<le> int (length data))"
  shows "select_match data (JObj kvs) =
           ([StWarning (''Match number '' @ string_of_int n @ '' is out of range.'')], Inr (JNull, JNull))"
proof -
  have "kvs \<noteq> []" using assms(1) by auto
  moreover have "''match_number'' \<in> fst ` set kvs" using assms(1) by (rule key_present)
  moreover have "\<not> (0 \<le> n - 1 \<and> n - 1 < int (length data))" using assms(2) by auto
  ultimately show ?thesis
    using assms(1)
    by (auto simp: select_match_def py_contains_def select_by_number_def py_subscript_def
        py_minus_one_def Let_def run_simps py_str_def)
qed

lemma apology_for_number:
  assumes "has_match_data s" and "map_of kvs ''match_number'' = Some v"
  shows "detailed_match_info_for_llm env s (Some (JObj kvs), JNull, sname) = ([], Inr apology)"
proof -
  have "kvs \<noteq> []" using assms(2) by auto
  moreover have "''match_number'' \<in> fst ` set kvs" using assms(2) by (rule key_present)
  ultimately show ?thesis
    using assms(1)
    by (simp add: detailed_match_info_for_llm_def intent_named_a_match_def py_contains_def
        then_r_def run_simps)
qed

lemma number_out_of_range_steps:
  assumes "has_match_data s" and "match_list_for_llm s \<noteq> []"
    and "generate_content env q (current_matches_summary_text (match_list_for_llm s)) = IntentParsed (JObj kvs)"
    and "map_of kvs ''match_number'' = Some (JInt n)"
    and "\<not> (1 \<le> n \<and> n \<le> int (length (match_data s)))"
  shows "detail_steps env s q =
           ([IntentCall q (current_matches_summary_text (match_list_for_llm s)),
             StWarning (''Match number '' @ string_of_int n @ '' is out of range.'')], Inr apology)"
  using identify_parsed [OF assms(1,2,3)] select_number_out_of_range [OF assms(4,5)]
    apology_for_number [OF assms(1,4)]
  by (simp add: detail_steps_def run_simps)

lemma number_in_range_identified:
  assumes "has_match_data s" and "match_list_for_llm s \<noteq> []"
    and "generate_content env q (current_matches_summary_text (match_list_for_llm s)) = IntentParsed (JObj kvs)"
    and "map_of kvs ''match_number'' = Some (JInt n)"
    and "1 \<le> n" and "n \<le> int (length (match_data s))"
  shows "identify_match env s q =
           ([IntentCall q (current_matches_summary_text (match_list_for_llm s)),
             debug_identified ''number'' (dict_get (match_data s ! nat (n - 1)) ''name'' JNull)
               (dict_get (match_data s ! nat (n - 1)) ''id'' JNull)],
            Inr (Some (JObj kvs), dict_get (match_data s ! nat (n - 1)) ''id'' JNull,
                 dict_get (match_data s ! nat (n - 1)) ''name'' JNull))"
  using identify_parsed [OF assms(1,2,3)] select_number_in_range [OF assms(4,5,6)]
  by (simp add: run_simps)

lemma context_with_apology:
  assumes "has_match_data s"
  shows "full_prompt_to_gemini s apology q =
           ''General Current Match Data:'' @ nl @ general_match_data_for_llm (match_data s) @ nl @ nl
           @ apology @ nl @ ''User Query: '' @ q"
  using assms by (simp add: full_prompt_to_gemini_def context_for_llm_def apology_def)

lemma number_out_of_range_identified:
  assumes "has_match_data s" and "match_list_for_llm s \<noteq> []"
    and "generate_content env q (current_matches_summary_text (match_list_for_llm s)) = IntentParsed (JObj kvs)"
    and "map_of kvs ''match_number'' = Some (JInt n)"
    and "\<not> (1 \<le> n \<and> n \<le> int (length (match_data s)))"
  shows "identify_match env s q =
           ([IntentCall q (current_matches_summary_text (match_list_for_llm s)),
             StWarning (''Match number '' @ string_of_int n @ '' is out of range.'')],
            Inr (Some (JObj kvs), JNull, JNull))"
  using identify_parsed [OF assms(1,2,3)] select_number_out_of_range [OF assms(4,5)]
  by (simp add: run_simps)

lemma cached_session_facts:
  "ms \<noteq> [] \<Longrightarrow> has_match_data (cached_session ms)"
  "match_data (cached_session ms) = ms"
  "ms \<noteq> [] \<Longrightarrow> match_list_for_llm (cached_session ms) \<noteq> []"
  by (cases ms; simp add: cached_session_def has_match_data_def match_data_def lookup_list_def)+

lemma one_match_summary:
  "current_matches_summary_text (match_list_for_llm (cached_session [team_a_vs_b])) = ''1. Team A vs Team B''"
  by (simp add: cached_session_def lookup_list_def lookup_entry_def current_matches_summary_text_def
      team_a_vs_b_def dict_get_def py_str_def string_of_int_def string_of_nat.simps)

lemma two_match_summary:
  "current_matches_summary_text (match_list_for_llm (cached_session [team_a_vs_b, team_c_vs_d]))
     = ''1. Team A vs Team B'' @ nl @ ''2. Team C vs Team D''"
  by (simp add: cached_session_def lookup_list_def lookup_entry_def current_matches_summary_text_def
      team_a_vs_b_def team_c_vs_d_def dict_get_def py_str_def string_of_int_def string_of_nat.simps)

lemma one_match_general:
  "general_match_data_for_llm [team_a_vs_b] = ''Match: Team A vs Team B, Status: Live, ID: m1''"
  by (simp add: general_match_data_for_llm_def team_a_vs_b_def dict_get_def py_str_def)

lemma two_match_general:
  "general_match_data_for_llm [team_a_vs_b, team_c_vs_d]
     = ''Match: Team A vs Team B, Status: Live, ID: m1'' @ nl @ ''Match: Team C vs Team D, Status: Toss, ID: m2''"
  by (simp add: general_match_data_for_llm_def team_a_vs_b_def team_c_vs_d_def dict_get_def py_str_def)

text \<open>
  C2 (as amended). With one cached match and the intent \<open>match_number = 5\<close>, the turn
  warns that the number is out of range, selects no match and sends no request to the
  provider; the prompt it sends holds the general match list followed by the apology
  text and the user's query --- not the general match list alone.
\<close>

theorem number_five_of_one_match:
  assumes "current_match_data s = Some [m]" and "match_list_for_llm s \<noteq> []"
    and "generate_content env q (current_matches_summary_text (match_list_for_llm s)) = IntentParsed (JObj kvs)"
    and "map_of kvs ''match_number'' = Some (JInt 5)"
  shows "detail_steps env s q =
           ([IntentCall q (current_matches_summary_text (match_list_for_llm s)),
             StWarning ''Match number 5 is out of range.''], Inr apology)
         \<and> prompts_sent (fst (user_turn env s q)) =
             [''General Current Match Data:'' @ nl @ general_match_data_for_llm [m] @ nl @ nl
              @ apology @ nl @ ''User Query: '' @ q]"
proof -
  have data: "has_match_data s" "match_data s = [m]"
    using assms(1) by (simp_all add: has_match_data_def match_data_def)
  have out: "\<not> (1 \<le> (5::int) \<and> 5 \<le> int (length (match_data s)))"
    using data(2) by simp
  have five: "string_of_int 5 = ''5''"
    by (simp add: string_of_int_def string_of_nat.simps)
  have steps: "detail_steps env s q =
           ([IntentCall q (current_matches_summary_text (match_list_for_llm s)),
             StWarning ''Match number 5 is out of range.''], Inr apology)"
    using number_out_of_range_steps [OF data(1) assms(2,3,4) out] by (simp add: five)
  then show ?thesis
    using prompts_of_turn [OF steps] context_with_apology [OF data(1), of q] data(2) by simp
qed

theorem number_five_of_one_match_witness:
  "detail_steps (number_env 5) (cached_session [team_a_vs_b]) ''match 5'' =
     ([IntentCall ''match 5'' ''1. Team A vs Team B'', StWarning ''Match number 5 is out of range.''],
      Inr apology)
   \<and> prompts_sent (fst (user_turn (number_env 5) (cached_session [team_a_vs_b]) ''match 5'')) =
       [''General Current Match Data:'' @ nl @ ''Match: Team A vs Team B, Status: Live, ID: m1'' @ nl @ nl
        @ apology @ nl @ ''User Query: match 5'']"
proof -
  have a: "current_match_data (cached_session [team_a_vs_b]) = Some [team_a_vs_b]"
    by (simp add: cached_session_def)
  have b: "match_list_for_llm (cached_session [team_a_vs_b]) \<noteq> []"
    by (simp add: cached_session_facts)
  have c: "generate_content (number_env 5) ''match 5''
             (current_matches_summary_text (match_list_for_llm (cached_session [team_a_vs_b])))
           = IntentParsed (JObj [(''match_number'', JInt 5)])"
    by (simp add: number_env_def)
  have d: "map_of [(''match_number'', JInt 5)] ''match_number'' = Some (JInt 5)"
    by simp
  show ?thesis
    using number_five_of_one_match [OF a b c d] by (simp add: one_match_summary one_match_general)
qed

theorem out_of_range_prompt_holds_apology:
  "prompts_sent (fst (user_turn (number_env 5) (cached_session [team_a_vs_b]) ''match 5'')) =
     [''General Current Match Data:'' @ nl @ ''Match: Team A vs Team B, Status: Live, ID: m1'' @ nl @ nl
      @ apology @ nl @ ''User Query: match 5'']
   \<and> prompts_sent (fst (user_turn (number_env 5) (cached_session [team_a_vs_b]) ''match 5'')) \<noteq>
     [''General Current Match Data:'' @ nl @ ''Match: Team A vs Team B, Status: Live, ID: m1'' @ nl @ nl
      @ ''User Query: match 5'']"
proof -
  have data: "has_match_data (cached_session [team_a_vs_b])"
    "match_list_for_llm (cached_session [team_a_vs_b]) \<noteq> []"
    by (simp_all add: cached_session_facts)
  have c: "generate_content (number_env 5) ''match 5''
             (current_matches_summary_text (match_list_for_llm (cached_session [team_a_vs_b])))
           = IntentParsed (JObj [(''match_number'', JInt 5)])"
    by (simp add: number_env_def)
  have d: "map_of [(''match_number'', JInt 5)] ''match_number'' = Some (JInt 5)"
    by simp
  have out: "\<not> (1 \<le> (5::int) \<and> 5 \<le> int (length (match_data (cached_session [team_a_vs_b]))))"
    by (simp add: cached_session_facts)
  have "prompts_sent (fst (user_turn (number_env 5) (cached_session [team_a_vs_b]) ''match 5''))
      = [full_prompt_to_gemini (cached_session [team_a_vs_b]) apology ''match 5'']"
    using prompts_of_turn [OF number_out_of_range_steps [OF data c d out]] .
  then show ?thesis
    using context_with_apology [OF data(1), of "''match 5''"]
    by (simp add: cached_session_facts one_match_general apology_def nl_def)
qed

text \<open>
  C3 (as amended). With cached matches and the intent \<open>match_number = n\<close>: for
  \<open>1 \<le> n \<le> L\<close> the turn reads the identifier and the name of the \<open>n\<close>-th cached match
  as the selected match and warns of nothing; for any other \<open>n\<close> it warns that the number
  is out of range, selects nothing and sends no request to the provider, and, other than
  for an unresolved intent, puts the apology text into the prompt as the detail text. A
  warning is shown exactly when \<open>n\<close> is out of range.
\<close>

theorem number_resolution:
  assumes "has_match_data s" and "match_list_for_llm s \<noteq> []"
    and "generate_content env q (current_matches_summary_text (match_list_for_llm s)) = IntentParsed (JObj kvs)"
    and "map_of kvs ''match_number'' = Some (JInt n)"
  shows "(1 \<le> n \<and> n \<le> int (length (match_data s)) \<longrightarrow>
            identify_match env s q =
              ([IntentCall q (current_matches_summary_text (match_list_for_llm s)),
                debug_identified ''number'' (dict_get (match_data s ! nat (n - 1)) ''name'' JNull)
                  (dict_get (match_data s ! nat (n - 1)) ''id'' JNull)],
               Inr (Some (JObj kvs), dict_get (match_data s ! nat (n - 1)) ''id'' JNull,
                    dict_get (match_data s ! nat (n - 1)) ''name'' JNull)))
         \<and> (\<not> (1 \<le> n \<and> n \<le> int (length (match_data s))) \<longrightarrow>
            identify_match env s q =
              ([IntentCall q (current_matches_summary_text (match_list_for_llm s)),
                StWarning (''Match number '' @ string_of_int n @ '' is out of range.'')],
               Inr (Some (JObj kvs), JNull, JNull))
            \<and> detail_steps env s q =
              ([IntentCall q (current_matches_summary_text (match_list_for_llm s)),
                StWarning (''Match number '' @ string_of_int n @ '' is out of range.'')], Inr apology)
            \<and> prompts_sent (fst (user_turn env s q)) =
              [''General Current Match Data:'' @ nl @ general_match_data_for_llm (match_data s) @ nl @ nl
               @ apology @ nl @ ''User Query: '' @ q])
         \<and> (warnings_shown (fst (identify_match env s q)) \<noteq> [] \<longleftrightarrow>
              \<not> (1 \<le> n \<and> n \<le> int (length (match_data s))))"
proof -
  let ?in_range = "1 \<le> n \<and> n \<le> int (length (match_data s))"
  let ?call = "IntentCall q (current_matches_summary_text (match_list_for_llm s))"
  let ?warn = "StWarning (''Match number '' @ string_of_int n @ '' is out of range.'')"
  have inside: "identify_match env s q =
              ([?call, debug_identified ''number'' (dict_get (match_data s ! nat (n - 1)) ''name'' JNull)
                  (dict_get (match_data s ! nat (n - 1)) ''id'' JNull)],
               Inr (Some (JObj kvs), dict_get (match_data s ! nat (n - 1)) ''id'' JNull,
                    dict_get (match_data s ! nat (n - 1)) ''name'' JNull))" if "?in_range"
    using that number_in_range_identified [OF assms] by simp
  have outside: "identify_match env s q = ([?call, ?warn], Inr (Some (JObj kvs), JNull, JNull))"
    "detail_steps env s q = ([?call, ?warn], Inr apology)"
    "prompts_sent (fst (user_turn env s q)) =
              [''General Current Match Data:'' @ nl @ general_match_data_for_llm (match_data s) @ nl @ nl
               @ apology @ nl @ ''User Query: '' @ q]" if "\<not> ?in_range"
  proof -
    show "identify_match env s q = ([?call, ?warn], Inr (Some (JObj kvs), JNull, JNull))"
      using number_out_of_range_identified [OF assms that] .
    show steps: "detail_steps env s q = ([?call, ?warn], Inr apology)"
      using number_out_of_range_steps [OF assms that] .
    show "prompts_sent (fst (user_turn env s q)) =
              [''General Current Match Data:'' @ nl @ general_match_data_for_llm (match_data s) @ nl @ nl
               @ apology @ nl @ ''User Query: '' @ q]"
      using prompts_of_turn [OF steps] context_with_apology [OF assms(1), of q] by simp
  qed
  have warned: "warnings_shown (fst (identify_match env s q)) \<noteq> [] \<longleftrightarrow> \<not> ?in_range"
  proof (cases "?in_range")
    case True
    then show ?thesis using inside by (simp add: warnings_shown_def debug_identified_def)
  next
    case False
    then show ?thesis using outside(1) by (simp add: warnings_shown_def)
  qed
  show ?thesis
    using inside outside warned by blast
qed

theorem number_resolution_witness:
  "identify_match (number_env 2) (cached_session [team_a_vs_b, team_c_vs_d]) ''tell me about match 2'' =
     ([IntentCall ''tell me about match 2'' (''1. Team A vs Team B'' @ nl @ ''2. Team C vs Team D''),
       StWrite ''DEBUG: Identified match by number: Team C vs Team D (ID: m2)''],
      Inr (Some (JObj [(''match_number'', JInt 2)]), JStr ''m2'', JStr ''Team C vs Team D''))
   \<and> warnings_shown (fst (identify_match (number_env 2) (cached_session [team_a_vs_b, team_c_vs_d])
        ''tell me about match 2'')) = []
   \<and> detail_steps (number_env 0) (cached_session [team_a_vs_b, team_c_vs_d]) ''tell me about match 0'' =
     ([IntentCall ''tell me about match 0'' (''1. Team A vs Team B'' @ nl @ ''2. Team C vs Team D''),
       StWarning ''Match number 0 is out of range.''], Inr apology)
   \<and> prompts_sent (fst (user_turn (number_env 0) (cached_session [team_a_vs_b, team_c_vs_d])
        ''tell me about match 0'')) =
     [''General Current Match Data:'' @ nl @ ''Match: Team A vs Team B, Status: Live, ID: m1'' @ nl
      @ ''Match: Team C vs Team D, Status: Toss, ID: m2'' @ nl @ nl
      @ apology @ nl @ ''User Query: tell me about match 0'']"
proof -
  let ?s = "cached_session [team_a_vs_b, team_c_vs_d]"
  have data: "has_match_data ?s" "match_list_for_llm ?s \<noteq> []"
    by (simp_all add: cached_session_facts)
  have two: "generate_content (number_env 2) ''tell me about match 2''
               (current_matches_summary_text (match_list_for_llm ?s)) = IntentParsed (JObj [(''match_number'', JInt 2)])"
    and zero: "generate_content (number_env 0) ''tell me about match 0''
               (current_matches_summary_text (match_list_for_llm ?s)) = IntentParsed (JObj [(''match_number'', JInt 0)])"
    by (simp_all add: number_env_def)
  have key: "map_of [(''match_number'', JInt 2)] ''match_number'' = Some (JInt 2)"
    "map_of [(''match_number'', JInt 0)] ''match_number'' = Some (JInt 0)"
    by simp_all
  have texts: "string_of_int 0 = ''0''"
    "debug_identified ''number'' (JStr ''Team C vs Team D'') (JStr ''m2'')
       = StWrite ''DEBUG: Identified match by number: Team C vs Team D (ID: m2)''"
    by (simp_all add: string_of_int_def string_of_nat.simps debug_identified_def py_str_def)
  have second: "dict_get team_c_vs_d ''id'' JNull = JStr ''m2''"
    "dict_get team_c_vs_d ''name'' JNull = JStr ''Team C vs Team D''"
    by (simp_all add: team_c_vs_d_def dict_get_def)
  show ?thesis
    using number_resolution [OF data two key(1)] number_resolution [OF data zero key(2)]
    by (simp add: cached_session_facts two_match_summary two_match_general texts second warnings_shown_def)
qed

lemma unresolved_steps:
  assumes "has_match_data s" and "match_list_for_llm s \<noteq> []"
    and "generate_content env q (current_matches_summary_text (match_list_for_llm s)) = IntentParsed (JObj [])"
  shows "detail_steps env s q =
           ([IntentCall q (current_matches_summary_text (match_list_for_llm s)),
             StWrite ''DEBUG: No specific match intent detected by LLM.''], Inr [])"
  using identify_parsed [OF assms] assms(1)
  by (simp add: detail_steps_def select_match_def detailed_match_info_for_llm_def
      intent_named_a_match_def run_simps)

lemma context_without_detail:
  assumes "has_match_data s"
  shows "full_prompt_to_gemini s [] q =
           ''General Current Match Data:'' @ nl @ general_match_data_for_llm (match_data s) @ nl @ nl
           @ ''User Query: '' @ q"
  using assms by (simp add: full_prompt_to_gemini_def context_for_llm_def)

theorem out_of_range_differs_from_unresolved:
  "prompts_sent (fst (user_turn (number_env 3) (cached_session [team_a_vs_b, team_c_vs_d]) ''and match 3?'')) =
     [''General Current Match Data:'' @ nl @ ''Match: Team A vs Team B, Status: Live, ID: m1'' @ nl
      @ ''Match: Team C vs Team D, Status: Toss, ID: m2'' @ nl @ nl
      @ apology @ nl @ ''User Query: and match 3?'']
   \<and> prompts_sent (fst (user_turn luck_env (cached_session [team_a_vs_b, team_c_vs_d]) ''and match 3?'')) =
     [''General Current Match Data:'' @ nl @ ''Match: Team A vs Team B, Status: Live, ID: m1'' @ nl
      @ ''Match: Team C vs Team D, Status: Toss, ID: m2'' @ nl @ nl
      @ ''User Query: and match 3?'']
   \<and> prompts_sent (fst (user_turn (number_env 3) (cached_session [team_a_vs_b, team_c_vs_d]) ''and match 3?''))
     \<noteq> prompts_sent (fst (user_turn luck_env (cached_session [team_a_vs_b, team_c_vs_d]) ''and match 3?''))"
proof -
  let ?s = "cached_session [team_a_vs_b, team_c_vs_d]"
  have data: "has_match_data ?s" "match_list_for_llm ?s \<noteq> []"
    by (simp_all add: cached_session_facts)
  have three: "generate_content (number_env 3) ''and match 3?''
               (current_matches_summary_text (match_list_for_llm ?s)) = IntentParsed (JObj [(''match_number'', JInt 3)])"
    by (simp add: number_env_def)
  have unresolved: "generate_content luck_env ''and match 3?''
               (current_matches_summary_text (match_list_for_llm ?s)) = IntentParsed (JObj [])"
    by (simp add: luck_env_def)
  have key: "map_of [(''match_number'', JInt 3)] ''match_number'' = Some (JInt 3)"
    by simp
  have out: "\<not> (1 \<le> (3::int) \<and> 3 \<le> int (length (match_data ?s)))"
    by (simp add: cached_session_facts)
  have a: "prompts_sent (fst (user_turn (number_env 3) ?s ''and match 3?''))
      = [full_prompt_to_gemini ?s apology ''and match 3?'']"
    using prompts_of_turn [OF number_out_of_range_steps [OF data three key out]] .
  have b: "prompts_sent (fst (user_turn luck_env ?s ''and match 3?''))
      = [full_prompt_to_gemini ?s [] ''and match 3?'']"
    using prompts_of_turn [OF unresolved_steps [OF data unresolved]] .
  show ?thesis
    unfolding a b
    using context_with_apology [OF data(1), of "''and match 3?''"]
      context_without_detail [OF data(1), of "''and match 3?''"]
    by (simp add: cached_session_facts two_match_general apology_def nl_def)
qed

section \<open>Selection by name\<close>
















section \<open>The refresh\<close>














end
